theory Spec2Isabelle
  imports Main "HOL-Library.Word"
begin

unbundle bit_operations_syntax

section \<open>JavaScript values shared by the modules\<close>

type_synonym byte = "8 word"

text \<open>
  A thrown value. The code tells thrown values apart by class only
  (\<^verbatim>\<open>error instanceof AuthenticationError\<close>, \<^verbatim>\<open>error instanceof z.ZodError\<close>);
  everything else is an \<^verbatim>\<open>Error\<close>, a \<^verbatim>\<open>TypeError\<close> or a \<^verbatim>\<open>SyntaxError\<close> with a message. \<open>AuthenticationError\<close>
  carries its message and its \<^verbatim>\<open>statusCode\<close>; it is the class auth-middleware.ts
  declares, so the Firebase SDK never throws it: what the SDK throws is a
  \<open>FirebaseError\<close> with the SDK's error code.
\<close>

datatype js_error =
    Error string
  | AuthenticationError string nat
  | TypeError string
  | SyntaxError string
  | ZodError string
  | FirebaseError string

fun is_AuthenticationError :: "js_error \<Rightarrow> bool" where
  "is_AuthenticationError (AuthenticationError _ _) = True"
| "is_AuthenticationError _ = False"

text \<open>
  \<^verbatim>\<open>String.prototype.split(sep)\<close> for a one-character separator: the pieces between
  the separators, empty pieces kept, never an empty array.
\<close>

fun split :: "char \<Rightarrow> string \<Rightarrow> string list" where
  "split sep [] = [[]]"
| "split sep (c # cs) =
     (if c = sep then [] # split sep cs
      else (case split sep cs of
              [] \<Rightarrow> [[c]]
            | p # ps \<Rightarrow> (c # p) # ps))"

text \<open>
  Array destructuring \<^verbatim>\<open>const [a, b] = parts\<close>: a missing element is
  \<^verbatim>\<open>undefined\<close> (\<open>None\<close>), further elements are dropped.
\<close>

fun destructure2 :: "'a list \<Rightarrow> 'a option \<times> 'a option" where
  "destructure2 [] = (None, None)"
| "destructure2 [a] = (Some a, None)"
| "destructure2 (a # b # _) = (Some a, Some b)"

text \<open>\<^verbatim>\<open>!s\<close> for a value that is a string, \<^verbatim>\<open>null\<close> or \<^verbatim>\<open>undefined\<close>.\<close>

fun falsy :: "string option \<Rightarrow> bool" where
  "falsy None = True"
| "falsy (Some s) = (s = [])"

section \<open>Buffers\<close>

text \<open>
  A JavaScript string is modelled by its sequence of UTF-8 code units, one \<open>char\<close>
  each, so \<^verbatim>\<open>Buffer.from(s, 'utf8')\<close> and \<^verbatim>\<open>buf.toString('utf8')\<close> convert unit by
  unit. The model string is the string as the encoder writes it. For text in ASCII (the
  header, the tokens, base64, the identities of the examples) it is the string itself.
  It does not tell apart JavaScript strings that the encoder writes alike:
  \<^verbatim>\<open>Buffer.from\<close> writes every lone surrogate as the three bytes of U+FFFD. So two
  model strings that differ stand for strings that differ, and nothing below concludes
  that two buffers differ from the strings they were made of being different.
\<close>

definition byte_of_char :: "char \<Rightarrow> byte" where
  "byte_of_char c = word_of_nat (of_char c)"

definition char_of_byte :: "byte \<Rightarrow> char" where
  "char_of_byte b = char_of (unat b)"

definition Buffer_from_utf8 :: "string \<Rightarrow> byte list" where
  "Buffer_from_utf8 s = map byte_of_char s"

definition toString_utf8 :: "byte list \<Rightarrow> string" where
  "toString_utf8 buf = map char_of_byte buf"

text \<open>
  \<^verbatim>\<open>buf.toString('base64')\<close>: three bytes give four characters of the standard alphabet,
  a last group of one or two bytes is padded with \<^verbatim>\<open>=\<close>.
\<close>

definition base64_char :: "byte \<Rightarrow> char" where
  "base64_char v =
     (let n = unat (v AND 0x3F) in
      if n < 26 then char_of (n + 65)
      else if n < 52 then char_of (n + 71)
      else if n < 62 then char_of (n - 4)
      else if n = 62 then CHR ''+'' else CHR ''/'')"

fun toString_base64 :: "byte list \<Rightarrow> string" where
  "toString_base64 (a # b # c # rest) =
     [base64_char (drop_bit 2 a),
      base64_char (push_bit 4 (a AND 0x03) OR drop_bit 4 b),
      base64_char (push_bit 2 (b AND 0x0F) OR drop_bit 6 c),
      base64_char (c AND 0x3F)] @ toString_base64 rest"
| "toString_base64 [a, b] =
     [base64_char (drop_bit 2 a),
      base64_char (push_bit 4 (a AND 0x03) OR drop_bit 4 b),
      base64_char (push_bit 2 (b AND 0x0F)),
      CHR ''='']"
| "toString_base64 [a] =
     [base64_char (drop_bit 2 a),
      base64_char (push_bit 4 (a AND 0x03)),
      CHR ''='', CHR ''='']"
| "toString_base64 [] = []"

text \<open>
  \<^verbatim>\<open>Buffer.from(s, 'base64')\<close> never throws. Node's decoder accepts the standard and
  the URL-safe alphabet, skips every other character, stops at the first \<^verbatim>\<open>=\<close>, emits
  a byte as soon as its bits are there, and drops the bits left over at the end.
\<close>

definition unbase64 :: "char \<Rightarrow> byte option" where
  "unbase64 c =
     (let n = (of_char c :: nat) in
      if 65 \<le> n \<and> n \<le> 90 then Some (word_of_nat (n - 65))
      else if 97 \<le> n \<and> n \<le> 122 then Some (word_of_nat (n - 71))
      else if 48 \<le> n \<and> n \<le> 57 then Some (word_of_nat (n + 4))
      else if c = CHR ''+'' \<or> c = CHR ''-'' then Some 62
      else if c = CHR ''/'' \<or> c = CHR ''_'' then Some 63
      else None)"

fun base64_sextets :: "string \<Rightarrow> byte list" where
  "base64_sextets [] = []"
| "base64_sextets (c # cs) =
     (case unbase64 c of
        Some v \<Rightarrow> v # base64_sextets cs
      | None \<Rightarrow> if c = CHR ''='' then [] else base64_sextets cs)"

fun base64_groups :: "byte list \<Rightarrow> byte list" where
  "base64_groups (a # b # c # d # rest) =
     [push_bit 2 (a AND 0x3F) OR drop_bit 4 (b AND 0x30),
      push_bit 4 (b AND 0x0F) OR drop_bit 2 (c AND 0x3C),
      push_bit 6 (c AND 0x03) OR (d AND 0x3F)] @ base64_groups rest"
| "base64_groups [a, b, c] =
     [push_bit 2 (a AND 0x3F) OR drop_bit 4 (b AND 0x30),
      push_bit 4 (b AND 0x0F) OR drop_bit 2 (c AND 0x3C)]"
| "base64_groups [a, b] = [push_bit 2 (a AND 0x3F) OR drop_bit 4 (b AND 0x30)]"
| "base64_groups _ = []"

definition Buffer_from_base64 :: "string \<Rightarrow> byte list" where
  "Buffer_from_base64 s = base64_groups (base64_sextets s)"

section \<open>The crypto module\<close>

text \<open>
  Node's \<^verbatim>\<open>crypto\<close> primitives are not code of this repository; the model takes them as
  parameters, typed by what they return:
  \<^item> SHA-256, from a byte string to a 256-bit digest;
  \<^item> AES-256-GCM, which is counter mode with a tag. Byte \<open>i\<close> of the ciphertext is byte
    \<open>i\<close> of the plaintext XOR byte \<open>i\<close> of a keystream that depends on the key and
    the IV only; the 128-bit tag is a function of the key, the IV and the ciphertext (the
    code sets no additional authenticated data).
\<close>

record crypto_lib =
  sha256 :: "byte list \<Rightarrow> 256 word"
  aes_256_gcm_keystream :: "byte list \<Rightarrow> byte list \<Rightarrow> nat \<Rightarrow> byte"
  aes_256_gcm_tag :: "byte list \<Rightarrow> byte list \<Rightarrow> byte list \<Rightarrow> 128 word"

text \<open>The \<open>n\<close> low bytes of a word, most significant first.\<close>

definition be_bytes :: "nat \<Rightarrow> 'a::len word \<Rightarrow> byte list" where
  "be_bytes n w = map (\<lambda>i. ucast (drop_bit (8 * (n - 1 - i)) w)) [0..<n]"

definition digest :: "crypto_lib \<Rightarrow> byte list \<Rightarrow> byte list" where
  "digest lib msg = be_bytes 32 (sha256 lib msg)"

text \<open>
  HMAC (RFC 2104) over SHA-256, whose block is 64 bytes: a key longer than a block is
  hashed first, and the key is then padded with zero bytes to the block length.
\<close>

definition hmac_key_block :: "crypto_lib \<Rightarrow> byte list \<Rightarrow> byte list" where
  "hmac_key_block lib key =
     (let k = (if 64 < length key then digest lib key else key)
      in k @ replicate (64 - length k) 0)"

text \<open>
  The message of the outer SHA-256 call of HMAC: the key block XOR \<open>opad\<close>, then the
  digest of the key block XOR \<open>ipad\<close> and the message.
\<close>

definition hmac_outer :: "crypto_lib \<Rightarrow> byte list \<Rightarrow> byte list \<Rightarrow> byte list" where
  "hmac_outer lib key msg =
     (let k = hmac_key_block lib key
      in map (\<lambda>b. b XOR 0x5C) k @ digest lib (map (\<lambda>b. b XOR 0x36) k @ msg))"

definition hmac :: "crypto_lib \<Rightarrow> byte list \<Rightarrow> byte list \<Rightarrow> byte list" where
  "hmac lib key msg = digest lib (hmac_outer lib key msg)"

text \<open>
  \<^verbatim>\<open>crypto.hkdfSync('sha256', ikm, salt, info, keylen)\<close> is HKDF (RFC 5869): the
  extraction step is HMAC keyed with the salt, the expansion step chains HMAC blocks
  \<open>T(i) = HMAC(PRK, T(i-1) | info | i)\<close> and keeps the first \<open>keylen\<close> bytes. It throws
  for a \<open>keylen\<close> above 255 digests.
\<close>

definition hkdf_extract :: "crypto_lib \<Rightarrow> byte list \<Rightarrow> byte list \<Rightarrow> byte list" where
  "hkdf_extract lib salt ikm = hmac lib salt ikm"

fun hkdf_blocks ::
  "crypto_lib \<Rightarrow> byte list \<Rightarrow> byte list \<Rightarrow> byte list \<Rightarrow> nat \<Rightarrow> nat \<Rightarrow> byte list" where
  "hkdf_blocks lib prk info prev i 0 = []"
| "hkdf_blocks lib prk info prev i (Suc n) =
     (let t = hmac lib prk (prev @ info @ [word_of_nat i])
      in t @ hkdf_blocks lib prk info t (i + 1) n)"

definition hkdf_expand :: "crypto_lib \<Rightarrow> byte list \<Rightarrow> byte list \<Rightarrow> nat \<Rightarrow> byte list" where
  "hkdf_expand lib prk info keylen =
     take keylen (hkdf_blocks lib prk info [] 1 ((keylen + 31) div 32))"

definition hkdfSync ::
  "crypto_lib \<Rightarrow> byte list \<Rightarrow> byte list \<Rightarrow> byte list \<Rightarrow> nat \<Rightarrow> js_error + byte list" where
  "hkdfSync lib ikm salt info keylen =
     (if 255 * 32 < keylen then Inl (Error ''Invalid key length'')
      else Inr (hkdf_expand lib (hkdf_extract lib salt ikm) info keylen))"

text \<open>
  \<^verbatim>\<open>crypto.randomBytes(size)\<close> draws from the system's entropy: the generator is the
  stream of bytes still to come, and a draw takes the first \<open>n\<close> of them.
\<close>

type_synonym rng = "nat \<Rightarrow> byte"

definition randomBytes :: "nat \<Rightarrow> rng \<Rightarrow> byte list \<times> rng" where
  "randomBytes n g = (map g [0..<n], (\<lambda>i. g (i + n)))"

definition gcm_crypt :: "crypto_lib \<Rightarrow> byte list \<Rightarrow> byte list \<Rightarrow> byte list \<Rightarrow> byte list" where
  "gcm_crypt lib key iv_bytes data =
     map (\<lambda>(i, b). b XOR aes_256_gcm_keystream lib key iv_bytes i) (enumerate 0 data)"

text \<open>
  \<^verbatim>\<open>createCipheriv(algorithm, key, iv)\<close> throws for an unknown algorithm, a key that is
  not 32 bytes and an empty IV (GCM takes an IV of any other length). The model knows one
  algorithm, the one the code names.
\<close>

definition createCipheriv_check :: "string \<Rightarrow> byte list \<Rightarrow> byte list \<Rightarrow> js_error option" where
  "createCipheriv_check algorithm key iv_bytes =
     (if algorithm \<noteq> ''aes-256-gcm'' then Some (TypeError ''Invalid cipher'')
      else if length key \<noteq> 32 then Some (Error ''Invalid key length'')
      else if iv_bytes = [] then Some (TypeError ''Invalid initialization vector'')
      else None)"

text \<open>
  \<^verbatim>\<open>createCipheriv\<close>, \<^verbatim>\<open>update\<close>, \<^verbatim>\<open>final\<close>, \<^verbatim>\<open>getAuthTag\<close>: the ciphertext and the
  tag, 16 bytes when no other length is asked for.
\<close>

definition cipher_run ::
  "crypto_lib \<Rightarrow> string \<Rightarrow> byte list \<Rightarrow> byte list \<Rightarrow> byte list
     \<Rightarrow> js_error + byte list \<times> byte list" where
  "cipher_run lib algorithm key iv_bytes plaintext =
     (case createCipheriv_check algorithm key iv_bytes of
        Some error \<Rightarrow> Inl error
      | None \<Rightarrow>
          (let c = gcm_crypt lib key iv_bytes plaintext
           in Inr (c, be_bytes 16 (aes_256_gcm_tag lib key iv_bytes c))))"

text \<open>
  \<^verbatim>\<open>createDecipheriv\<close>, \<^verbatim>\<open>setAuthTag\<close>, \<^verbatim>\<open>update\<close>, \<^verbatim>\<open>final\<close>. The code passes no
  \<^verbatim>\<open>authTagLength\<close>, so \<^verbatim>\<open>setAuthTag\<close> takes a tag of 4, 8 or 12 to 16 bytes and throws
  for any other length; \<^verbatim>\<open>final\<close> throws unless the tag given is the tag of the
  ciphertext, cut to the length given.
\<close>

definition decipher_run ::
  "crypto_lib \<Rightarrow> string \<Rightarrow> byte list \<Rightarrow> byte list \<Rightarrow> byte list \<Rightarrow> byte list
     \<Rightarrow> js_error + byte list" where
  "decipher_run lib algorithm key iv_bytes tag ciphertext_bytes =
     (case createCipheriv_check algorithm key iv_bytes of
        Some error \<Rightarrow> Inl error
      | None \<Rightarrow>
          if length tag \<notin> set [4, 8, 12, 13, 14, 15, 16]
          then Inl (TypeError ''Invalid authentication tag length'')
          else if tag \<noteq> take (length tag)
                    (be_bytes 16 (aes_256_gcm_tag lib key iv_bytes ciphertext_bytes))
          then Inl (Error ''Unsupported state or unable to authenticate data'')
          else Inr (gcm_crypt lib key iv_bytes ciphertext_bytes))"

text \<open>
  \<^verbatim>\<open>JSON.stringify\<close> and \<^verbatim>\<open>JSON.parse\<close> at the type of the data. \<open>stringify\<close> is
  \<open>None\<close> where \<^verbatim>\<open>JSON.stringify\<close> throws or returns \<^verbatim>\<open>undefined\<close>; \<open>parse\<close> is
  \<open>None\<close> where \<^verbatim>\<open>JSON.parse\<close> throws its \<^verbatim>\<open>SyntaxError\<close>.
\<close>

record 'a JSON =
  stringify :: "'a \<Rightarrow> string option"
  parse :: "string \<Rightarrow> 'a option"

section \<open>encryption.ts\<close>

record process_env =
  ENCRYPTION_MASTER_SECRET :: "string option"
  TURSO_DATABASE_URL :: "string option"
  TURSO_AUTH_TOKEN :: "string option"

definition ALGORITHM :: string where "ALGORITHM = ''aes-256-gcm''"
definition IV_LENGTH :: nat where "IV_LENGTH = 16"
definition AUTH_TAG_LENGTH :: nat where "AUTH_TAG_LENGTH = 16"
definition SALT_LENGTH :: nat where "SALT_LENGTH = 32"
definition KEY_LENGTH :: nat where "KEY_LENGTH = 32"

definition getMasterSecret :: "process_env \<Rightarrow> js_error + byte list" where
  "getMasterSecret env =
     (let secret = ENCRYPTION_MASTER_SECRET env in
      if falsy secret
      then Inl (Error ''ENCRYPTION_MASTER_SECRET environment variable is not set'')
      else Inr (Buffer_from_base64 (the secret)))"

definition deriveUserKey :: "crypto_lib \<Rightarrow> process_env \<Rightarrow> string \<Rightarrow> js_error + byte list" where
  "deriveUserKey lib env firebaseUid =
     (case getMasterSecret env of
        Inl error \<Rightarrow> Inl error
      | Inr masterSecret \<Rightarrow>
          (let salt = Buffer_from_utf8 firebaseUid;
               info = Buffer_from_utf8 ''tenants-app-user-encryption-key''
           in hkdfSync lib masterSecret salt info KEY_LENGTH))"

record EncryptedData =
  ciphertext :: string
  iv :: string
  authTag :: string

text \<open>
  The body of the \<^verbatim>\<open>try\<close> block of \<^verbatim>\<open>encrypt\<close>. \<^verbatim>\<open>cipher.update(undefined, 'utf8')\<close>
  throws a \<^verbatim>\<open>TypeError\<close>.
\<close>

definition encrypt_try ::
  "crypto_lib \<Rightarrow> 'a JSON \<Rightarrow> process_env \<Rightarrow> 'a \<Rightarrow> string \<Rightarrow> rng
     \<Rightarrow> (js_error + EncryptedData) \<times> rng" where
  "encrypt_try lib JSON env data firebaseUid g =
     (case deriveUserKey lib env firebaseUid of
        Inl error \<Rightarrow> (Inl error, g)
      | Inr key \<Rightarrow>
          (case randomBytes IV_LENGTH g of (iv_bytes, g') \<Rightarrow>
             (case stringify JSON data of
                None \<Rightarrow> (Inl (TypeError ''The data argument must be of type string''), g')
              | Some plaintext \<Rightarrow>
                  (case cipher_run lib ALGORITHM key iv_bytes (Buffer_from_utf8 plaintext) of
                     Inl error \<Rightarrow> (Inl error, g')
                   | Inr (ciphertext_bytes, authTag_bytes) \<Rightarrow>
                       (Inr \<lparr> ciphertext = toString_base64 ciphertext_bytes,
                              iv = toString_base64 iv_bytes,
                              authTag = toString_base64 authTag_bytes \<rparr>, g')))))"

definition encrypt ::
  "crypto_lib \<Rightarrow> 'a JSON \<Rightarrow> process_env \<Rightarrow> 'a \<Rightarrow> string \<Rightarrow> rng
     \<Rightarrow> (js_error + EncryptedData) \<times> rng" where
  "encrypt lib JSON env data firebaseUid g =
     (case encrypt_try lib JSON env data firebaseUid g of
        (Inl error, g') \<Rightarrow> (Inl (Error ''Encryption failed''), g')
      | (Inr encrypted, g') \<Rightarrow> (Inr encrypted, g'))"

text \<open>The body of the \<^verbatim>\<open>try\<close> block of \<^verbatim>\<open>decrypt\<close>.\<close>

definition decrypt_try ::
  "crypto_lib \<Rightarrow> 'a JSON \<Rightarrow> process_env \<Rightarrow> EncryptedData \<Rightarrow> string \<Rightarrow> js_error + 'a" where
  "decrypt_try lib JSON env encryptedData firebaseUid =
     (case deriveUserKey lib env firebaseUid of
        Inl error \<Rightarrow> Inl error
      | Inr key \<Rightarrow>
          (let ciphertext_bytes = Buffer_from_base64 (ciphertext encryptedData);
               iv_bytes = Buffer_from_base64 (iv encryptedData);
               authTag_bytes = Buffer_from_base64 (authTag encryptedData)
           in (case decipher_run lib ALGORITHM key iv_bytes authTag_bytes ciphertext_bytes of
                 Inl error \<Rightarrow> Inl error
               | Inr plaintext \<Rightarrow>
                   (case parse JSON (toString_utf8 plaintext) of
                      None \<Rightarrow> Inl (SyntaxError ''Unexpected token'')
                    | Some data \<Rightarrow> Inr data))))"

definition decrypt ::
  "crypto_lib \<Rightarrow> 'a JSON \<Rightarrow> process_env \<Rightarrow> EncryptedData \<Rightarrow> string \<Rightarrow> js_error + 'a" where
  "decrypt lib JSON env encryptedData firebaseUid =
     (case decrypt_try lib JSON env encryptedData firebaseUid of
        Inl error \<Rightarrow> Inl (Error ''Decryption failed or data integrity compromised'')
      | Inr data \<Rightarrow> Inr data)"

text \<open>
  \<^verbatim>\<open>encryptField\<close> has no \<^verbatim>\<open>try\<close>: what \<^verbatim>\<open>encrypt\<close> throws goes to the caller.
  \<open>JSON'\<close> is \<^verbatim>\<open>JSON\<close> at the type of the encrypted record.
\<close>

definition encryptField ::
  "crypto_lib \<Rightarrow> 'a JSON \<Rightarrow> EncryptedData JSON \<Rightarrow> process_env \<Rightarrow> 'a \<Rightarrow> string \<Rightarrow> rng
     \<Rightarrow> (js_error + string) \<times> rng" where
  "encryptField lib JSON JSON' env data firebaseUid g =
     (case encrypt lib JSON env data firebaseUid g of
        (Inl error, g') \<Rightarrow> (Inl error, g')
      | (Inr encrypted, g') \<Rightarrow>
          (case stringify JSON' encrypted of
             None \<Rightarrow> (Inl (TypeError ''The first argument must be of type string''), g')
           | Some combined \<Rightarrow> (Inr (toString_base64 (Buffer_from_utf8 combined)), g')))"

section \<open>firebase-admin.ts\<close>

text \<open>
  The Firebase Admin SDK is an external service. What the code sees of it: the list of
  initialised apps, what \<^verbatim>\<open>initializeApp({credential: cert({...})})\<close> does with the
  service-account variables of the environment (it returns an app or throws), and what
  \<^verbatim>\<open>getAuth(app).verifyIdToken(token, checkRevoked)\<close> answers (the decoded claims, or
  it throws). \<open>Inl code\<close> is a throw, with the SDK's error code.
\<close>

datatype App = App string

record DecodedIdToken =
  uid :: string
  email :: "string option"
  email_verified :: "bool option"

record firebase_sdk =
  getApps :: "App list"
  initializeApp :: "string + App"
  verifyIdToken :: "App \<Rightarrow> string \<Rightarrow> bool \<Rightarrow> string + DecodedIdToken"

definition getFirebaseAdmin :: "firebase_sdk \<Rightarrow> js_error + App" where
  "getFirebaseAdmin sdk =
     (case getApps sdk of
        [] \<Rightarrow>
          (case initializeApp sdk of
             Inl code \<Rightarrow> Inl (Error ''Failed to initialize Firebase Admin SDK'')
           | Inr app \<Rightarrow> Inr app)
      | app # _ \<Rightarrow> Inr app)"

definition getFirebaseAdminAuth :: "firebase_sdk \<Rightarrow> js_error + App" where
  "getFirebaseAdminAuth sdk = getFirebaseAdmin sdk"

section \<open>auth-middleware.ts\<close>

record AuthenticatedUser =
  uid :: string
  email :: "string option"
  emailVerified :: bool
  token :: DecodedIdToken

text \<open>
  A request: its headers (\<^verbatim>\<open>request.headers.get(name)\<close> is \<open>null\<close> for a header
  that is not there) and what \<^verbatim>\<open>await request.json()\<close> gives, the parsed body or a
  thrown error.
\<close>

record 'b NextRequest =
  headers :: "string \<rightharpoonup> string"
  json :: "js_error + 'b"

text \<open>The body of the \<^verbatim>\<open>try\<close> block of \<^verbatim>\<open>verifyAuth\<close>.\<close>

definition verifyAuth_try ::
  "firebase_sdk \<Rightarrow> ('b, 'x) NextRequest_scheme \<Rightarrow> js_error + AuthenticatedUser" where
  "verifyAuth_try sdk request =
     (let authHeader = headers request ''authorization'' in
      if falsy authHeader then Inl (AuthenticationError ''Missing authorization header'' 401)
      else
        (case destructure2 (split CHR '' '' (the authHeader)) of (bearer, tok) \<Rightarrow>
           if bearer \<noteq> Some ''Bearer'' \<or> falsy tok
           then Inl (AuthenticationError ''Invalid authorization header format'' 401)
           else
             (case getFirebaseAdminAuth sdk of
                Inl error \<Rightarrow> Inl error
              | Inr auth \<Rightarrow>
                  (case verifyIdToken sdk auth (the tok) True of
                     Inl code \<Rightarrow> Inl (FirebaseError code)
                   | Inr decodedToken \<Rightarrow>
                       Inr \<lparr> uid = DecodedIdToken.uid decodedToken,
                             email = DecodedIdToken.email decodedToken,
                             emailVerified =
                               (case email_verified decodedToken of
                                  None \<Rightarrow> False
                                | Some b \<Rightarrow> b),
                             token = decodedToken \<rparr>))))"

text \<open>
  \<^verbatim>\<open>verifyAuth\<close>: the \<^verbatim>\<open>catch\<close> rethrows an \<open>AuthenticationError\<close> and turns every
  other thrown value into \<^verbatim>\<open>AuthenticationError('Invalid or expired token', 401)\<close>.
\<close>

definition verifyAuth ::
  "firebase_sdk \<Rightarrow> ('b, 'x) NextRequest_scheme \<Rightarrow> js_error + AuthenticatedUser" where
  "verifyAuth sdk request =
     (case verifyAuth_try sdk request of
        Inr user \<Rightarrow> Inr user
      | Inl error \<Rightarrow>
          if is_AuthenticationError error then Inl error
          else Inl (AuthenticationError ''Invalid or expired token'' 401))"

text \<open>
  A response: the status and the JSON body, an object of a few scalar fields.
\<close>

datatype body_value = JString string | JBool bool | JNumber nat

record Response =
  status :: nat
  body :: "(string \<times> body_value) list"

text \<open>The \<^verbatim>\<open>catch\<close> block of the function \<^verbatim>\<open>withAuth\<close> returns.\<close>

fun withAuth_catch :: "js_error \<Rightarrow> Response" where
  "withAuth_catch (AuthenticationError message statusCode) =
     \<lparr> status = statusCode, body = [(''error'', JString message)] \<rparr>"
| "withAuth_catch _ =
     \<lparr> status = 500, body = [(''error'', JString ''Authentication failed'')] \<rparr>"

text \<open>
  \<^verbatim>\<open>withAuth(handler)\<close>. A handler has effects (it draws randomness, it writes to the
  database), so it takes the state of the world \<open>'w\<close> and returns it updated, with its
  response or the error it threw. \<^verbatim>\<open>verifyAuth\<close> only asks the identity provider.
\<close>

type_synonym ('b, 'w) route_handler =
  "'b NextRequest \<Rightarrow> AuthenticatedUser \<Rightarrow> 'w \<Rightarrow> (js_error + Response) \<times> 'w"

definition withAuth ::
  "firebase_sdk \<Rightarrow> ('b, 'w) route_handler \<Rightarrow> 'b NextRequest \<Rightarrow> 'w \<Rightarrow> Response \<times> 'w" where
  "withAuth sdk handler request w =
     (case verifyAuth sdk request of
        Inl error \<Rightarrow> (withAuth_catch error, w)
      | Inr user \<Rightarrow>
          (case handler request user w of
             (Inr response, w') \<Rightarrow> (response, w')
           | (Inl error, w') \<Rightarrow> (withAuth_catch error, w')))"

section \<open>database.ts\<close>

text \<open>
  The libSQL client is an external service; the state of the world holds what the
  route can change: the entropy still to be drawn, whether the singleton client has been
  created, and the store behind it.
\<close>

record 'db world =
  entropy :: rng
  db_created :: bool
  store :: 'db

definition getDatabase :: "process_env \<Rightarrow> 'db world \<Rightarrow> (js_error + unit) \<times> 'db world" where
  "getDatabase env w =
     (if \<not> db_created w then
        (let url = TURSO_DATABASE_URL env; authToken = TURSO_AUTH_TOKEN env in
         if falsy url
         then (Inl (Error ''TURSO_DATABASE_URL environment variable is not set''), w)
         else if falsy authToken
         then (Inl (Error ''TURSO_AUTH_TOKEN environment variable is not set''), w)
         else (Inr (), w\<lparr> db_created := True \<rparr>))
      else (Inr (), w))"

section \<open>The route POST /api/properties\<close>

text \<open>
  What the route takes from outside the repository: the crypto primitives,
  \<^verbatim>\<open>JSON\<close> at the two types it is used at, the environment, zod's
  \<^verbatim>\<open>createPropertySchema.parse\<close> (the validated data, or the issues of a \<open>ZodError\<close>)
  and \<^verbatim>\<open>db.execute\<close> (the \<^verbatim>\<open>lastInsertRowid\<close> of the result, which libSQL types
  \<^verbatim>\<open>bigint | undefined\<close>, or the message of the error thrown).
\<close>

record ('b, 'p, 'db) route_deps =
  crypto :: crypto_lib
  JSON_data :: "'p JSON"
  JSON_record :: "EncryptedData JSON"
  environment :: process_env
  schema_parse :: "'b \<Rightarrow> string + 'p"
  execute :: "string \<Rightarrow> string list \<Rightarrow> 'db \<Rightarrow> (string + int option) \<times> 'db"

text \<open>
  The body of the \<^verbatim>\<open>try\<close> block of \<^verbatim>\<open>handler\<close>. \<^verbatim>\<open>NextResponse.json\<close> writes
  its argument with \<^verbatim>\<open>JSON.stringify\<close>, which throws a \<^verbatim>\<open>TypeError\<close> for a
  \<^verbatim>\<open>bigint\<close> and leaves out a property that is \<^verbatim>\<open>undefined\<close>; the call is inside
  the \<^verbatim>\<open>try\<close>.
\<close>

definition handler_try :: "('b, 'p, 'db) route_deps \<Rightarrow> ('b, 'db world) route_handler" where
  "handler_try deps request user w =
     (case json request of
        Inl error \<Rightarrow> (Inl error, w)
      | Inr body_json \<Rightarrow>
          (case schema_parse deps body_json of
             Inl issues \<Rightarrow> (Inl (ZodError issues), w)
           | Inr validatedData \<Rightarrow>
               (case encryptField (crypto deps) (JSON_data deps) (JSON_record deps) (environment deps)
                       validatedData (AuthenticatedUser.uid user) (entropy w) of
                  (Inl error, g) \<Rightarrow> (Inl error, w\<lparr> entropy := g \<rparr>)
                | (Inr encryptedData, g) \<Rightarrow>
                    (case getDatabase (environment deps) (w\<lparr> entropy := g \<rparr>) of
                       (Inl error, w1) \<Rightarrow> (Inl error, w1)
                     | (Inr _, w1) \<Rightarrow>
                         (case execute deps
                                 ''INSERT INTO properties (owner_uid, encrypted_data) VALUES (?, ?)''
                                 [AuthenticatedUser.uid user, encryptedData] (store w1) of
                            (Inl message, s) \<Rightarrow> (Inl (Error message), w1\<lparr> store := s \<rparr>)
                          | (Inr lastInsertRowid, s) \<Rightarrow>
                              (case lastInsertRowid of
                                 Some rowid \<Rightarrow>
                                   (Inl (TypeError ''Do not know how to serialize a BigInt''),
                                    w1\<lparr> store := s \<rparr>)
                               | None \<Rightarrow>
                                   (Inr \<lparr> status = 201, body = [(''success'', JBool True)] \<rparr>,
                                    w1\<lparr> store := s \<rparr>)))))))"

definition handler :: "('b, 'p, 'db) route_deps \<Rightarrow> ('b, 'db world) route_handler" where
  "handler deps request user w =
     (case handler_try deps request user w of
        (Inr response, w') \<Rightarrow> (Inr response, w')
      | (Inl error, w') \<Rightarrow>
          (case error of
             ZodError issues \<Rightarrow>
               (Inr \<lparr> status = 400,
                      body = [(''error'', JString ''Validation failed''),
                              (''details'', JString issues)] \<rparr>, w')
           | _ \<Rightarrow>
               (Inr \<lparr> status = 500,
                      body = [(''error'', JString ''Failed to create property'')] \<rparr>, w')))"

definition POST ::
  "firebase_sdk \<Rightarrow> ('b, 'p, 'db) route_deps \<Rightarrow> 'b NextRequest \<Rightarrow> 'db world
     \<Rightarrow> Response \<times> 'db world" where
  "POST sdk deps = withAuth sdk (handler deps)"

text \<open>
  To say when a handler runs, it is wrapped so that each run is recorded: the wrapped
  handler does what the handler does and appends the caller it was given to a list kept
  beside the state.
\<close>

definition logged :: "('b, 'w) route_handler \<Rightarrow> ('b, 'w \<times> AuthenticatedUser list) route_handler" where
  "logged h request user = (\<lambda>(w, calls).
     (case h request user w of (r, w') \<Rightarrow> (r, (w', calls @ [user]))))"

section \<open>Notions the properties are stated with\<close>

text \<open>Bit \<open>n\<close> of a buffer flipped, counting from the low bit of the first byte.\<close>

definition flip_bit_at :: "nat \<Rightarrow> byte list \<Rightarrow> byte list" where
  "flip_bit_at n buf = buf[n div 8 := (buf ! (n div 8)) XOR push_bit (n mod 8) 1]"

text \<open>
  A record with one bit flipped in the bytes of one of its three components, written
  back in base64 as the record holds them.
\<close>

datatype component = Ciphertext | Nonce | AuthTag

fun tamper :: "component \<Rightarrow> nat \<Rightarrow> EncryptedData \<Rightarrow> EncryptedData" where
  "tamper Ciphertext n r =
     r\<lparr> ciphertext := toString_base64 (flip_bit_at n (Buffer_from_base64 (ciphertext r))) \<rparr>"
| "tamper Nonce n r =
     r\<lparr> iv := toString_base64 (flip_bit_at n (Buffer_from_base64 (iv r))) \<rparr>"
| "tamper AuthTag n r =
     r\<lparr> authTag := toString_base64 (flip_bit_at n (Buffer_from_base64 (authTag r))) \<rparr>"



section \<open>Values for the examples\<close>

text \<open>
  The environment of the specification's end-to-end scenario: the master secret is
  base64 of thirty-two characters \<^verbatim>\<open>0\<close>.
\<close>

definition example_env :: process_env where
  "example_env =
     \<lparr> ENCRYPTION_MASTER_SECRET = Some ''MDAwMDAwMDAwMDAwMDAwMDAwMDAwMDAwMDAwMDAwMDA='',
       TURSO_DATABASE_URL = Some ''libsql://example.turso.io'',
       TURSO_AUTH_TOKEN = Some ''secret'' \<rparr>"

text \<open>
  \<^verbatim>\<open>JSON\<close> at the type of the booleans: the two texts \<^verbatim>\<open>JSON.stringify\<close> writes for
  them are read back, and a text that is no JSON is refused.
\<close>

definition JSON_bool :: "bool JSON" where
  "JSON_bool =
     \<lparr> stringify = (\<lambda>b. Some (if b then ''true'' else ''false'')),
       parse = (\<lambda>s. if s = ''true'' then Some True
                      else if s = ''false'' then Some False else None) \<rparr>"

text \<open>
  Stand-ins for the primitives, for the examples only: a digest that keeps the first
  byte of the message, a keystream of zeros, and a tag that is the XOR of all bytes of
  key, IV and ciphertext.
\<close>

definition example_lib :: crypto_lib where
  "example_lib =
     \<lparr> sha256 = (\<lambda>msg. case msg of [] \<Rightarrow> 0 | b # _ \<Rightarrow> push_bit 248 (ucast b)),
       aes_256_gcm_keystream = (\<lambda>key iv_bytes i. 0),
       aes_256_gcm_tag = (\<lambda>key iv_bytes c. ucast (fold (XOR) (key @ iv_bytes @ c) (0 :: byte))) \<rparr>"

text \<open>
  A record as any holder of the key writes it: the cipher run over plaintext bytes that
  need not be JSON, under the key of an identity, with a given IV.
\<close>

definition seal ::
  "crypto_lib \<Rightarrow> process_env \<Rightarrow> string \<Rightarrow> byte list \<Rightarrow> byte list \<Rightarrow> js_error + EncryptedData" where
  "seal lib env firebaseUid iv_bytes plaintext =
     (case deriveUserKey lib env firebaseUid of
        Inl error \<Rightarrow> Inl error
      | Inr key \<Rightarrow>
          (case cipher_run lib ALGORITHM key iv_bytes plaintext of
             Inl error \<Rightarrow> Inl error
           | Inr (ciphertext_bytes, authTag_bytes) \<Rightarrow>
               Inr \<lparr> ciphertext = toString_base64 ciphertext_bytes,
                     iv = toString_base64 iv_bytes,
                     authTag = toString_base64 authTag_bytes \<rparr>))"

text \<open>An identity provider that knows one token, and a request with a given header.\<close>

definition example_sdk :: firebase_sdk where
  "example_sdk =
     \<lparr> getApps = [App ''[DEFAULT]''],
       initializeApp = Inl ''app/invalid-credential'',
       verifyIdToken = (\<lambda>app t checkRevoked.
          if t = ''good'' \<and> checkRevoked
          then Inr \<lparr> DecodedIdToken.uid = ''user-42'', DecodedIdToken.email = None,
                     email_verified = None \<rparr>
          else Inl ''auth/id-token-expired'') \<rparr>"

definition example_request :: "string option \<Rightarrow> unit NextRequest" where
  "example_request authHeader =
     \<lparr> headers = (\<lambda>h. if h = ''authorization'' then authHeader else None), json = Inr () \<rparr>"

section \<open>Properties of the authentication gate\<close>

lemma split_no_sep: "sep \<notin> set a \<Longrightarrow> split sep a = [a]"
  by (induction a) auto

lemma split_append_sep: "sep \<notin> set a \<Longrightarrow> split sep (a @ sep # b) = a # split sep b"
  by (induction a) auto

lemma split_ne: "split sep s \<noteq> []"
  by (induction s) (auto split: list.splits)

text \<open>
  Claim C6. The outcomes of \<^verbatim>\<open>verifyAuth\<close>: a request with no Authorization header is
  rejected with status 401; the header \<^verbatim>\<open>"Bearer "\<close> (empty token) is rejected with 401;
  a well-formed header whose token the identity provider refuses (expired, revoked) is
  rejected with 401; a well-formed header whose token the provider accepts gives the
  verified caller, whose uid is the uid of the decoded token.
\<close>

theorem verifyAuth_outcomes:
  "(headers request ''authorization'' = None \<longrightarrow>
      verifyAuth sdk request = Inl (AuthenticationError ''Missing authorization header'' 401))
   \<and> (headers request ''authorization'' = Some ''Bearer '' \<longrightarrow>
      verifyAuth sdk request = Inl (AuthenticationError ''Invalid authorization header format'' 401))
   \<and> (headers request ''authorization'' = Some (''Bearer '' @ t) \<and> t \<noteq> [] \<and> CHR '' '' \<notin> set t
        \<and> getFirebaseAdminAuth sdk = Inr auth \<and> verifyIdToken sdk auth t True = Inl code \<longrightarrow>
      verifyAuth sdk request = Inl (AuthenticationError ''Invalid or expired token'' 401))
   \<and> (headers request ''authorization'' = Some (''Bearer '' @ t) \<and> t \<noteq> [] \<and> CHR '' '' \<notin> set t
        \<and> getFirebaseAdminAuth sdk = Inr auth \<and> verifyIdToken sdk auth t True = Inr decoded \<longrightarrow>
      (\<exists>user. verifyAuth sdk request = Inr user
         \<and> AuthenticatedUser.uid user = DecodedIdToken.uid decoded \<and> token user = decoded))"
proof (intro conjI impI)
  assume "headers request ''authorization'' = None"
  then show "verifyAuth sdk request = Inl (AuthenticationError ''Missing authorization header'' 401)"
    by (simp add: verifyAuth_def verifyAuth_try_def)
next
  assume "headers request ''authorization'' = Some ''Bearer ''"
  then show "verifyAuth sdk request = Inl (AuthenticationError ''Invalid authorization header format'' 401)"
    by (simp add: verifyAuth_def verifyAuth_try_def)
next
  assume a: "headers request ''authorization'' = Some (''Bearer '' @ t) \<and> t \<noteq> [] \<and> CHR '' '' \<notin> set t
        \<and> getFirebaseAdminAuth sdk = Inr auth \<and> verifyIdToken sdk auth t True = Inl code"
  then have "split CHR '' '' (''Bearer '' @ t) = [''Bearer'', t]"
    using split_append_sep [of "CHR '' ''" "''Bearer''" t] split_no_sep [of "CHR '' ''" t] by simp
  with a show "verifyAuth sdk request = Inl (AuthenticationError ''Invalid or expired token'' 401)"
    by (simp add: verifyAuth_def verifyAuth_try_def)
next
  assume a: "headers request ''authorization'' = Some (''Bearer '' @ t) \<and> t \<noteq> [] \<and> CHR '' '' \<notin> set t
        \<and> getFirebaseAdminAuth sdk = Inr auth \<and> verifyIdToken sdk auth t True = Inr decoded"
  then have "split CHR '' '' (''Bearer '' @ t) = [''Bearer'', t]"
    using split_append_sep [of "CHR '' ''" "''Bearer''" t] split_no_sep [of "CHR '' ''" t] by simp
  with a show "\<exists>user. verifyAuth sdk request = Inr user
         \<and> AuthenticatedUser.uid user = DecodedIdToken.uid decoded \<and> token user = decoded"
    by (simp add: verifyAuth_def verifyAuth_try_def)
qed

theorem verifyAuth_outcomes_witness:
  "verifyAuth example_sdk (example_request None)
     = Inl (AuthenticationError ''Missing authorization header'' 401)
   \<and> verifyAuth example_sdk (example_request (Some ''Bearer ''))
     = Inl (AuthenticationError ''Invalid authorization header format'' 401)
   \<and> verifyAuth example_sdk (example_request (Some ''Bearer old''))
     = Inl (AuthenticationError ''Invalid or expired token'' 401)
   \<and> (\<exists>user. verifyAuth example_sdk (example_request (Some ''Bearer good'')) = Inr user
        \<and> AuthenticatedUser.uid user = ''user-42'')"
  (is "?A \<and> ?B \<and> ?C \<and> ?D")
proof -
  have auth: "getFirebaseAdminAuth example_sdk = Inr (App ''[DEFAULT]'')"
    by (simp add: getFirebaseAdminAuth_def getFirebaseAdmin_def example_sdk_def)
  have old: "verifyIdToken example_sdk (App ''[DEFAULT]'') ''old'' True = Inl ''auth/id-token-expired''"
    by (simp add: example_sdk_def)
  have good: "verifyIdToken example_sdk (App ''[DEFAULT]'') ''good'' True
      = Inr \<lparr> DecodedIdToken.uid = ''user-42'', DecodedIdToken.email = None,
              email_verified = None \<rparr>"
    by (simp add: example_sdk_def)
  have a: ?A
    using verifyAuth_outcomes [where request = "example_request None" and sdk = example_sdk]
    by (simp add: example_request_def)
  have b: ?B
    using verifyAuth_outcomes
      [where request = "example_request (Some ''Bearer '')" and sdk = example_sdk]
    by (simp add: example_request_def)
  have c: ?C
    using verifyAuth_outcomes
      [where request = "example_request (Some ''Bearer old'')" and sdk = example_sdk
         and t = "''old''" and auth = "App ''[DEFAULT]''" and code = "''auth/id-token-expired''"]
      auth old
    by (simp add: example_request_def)
  have d: ?D
    using verifyAuth_outcomes
      [where request = "example_request (Some ''Bearer good'')" and sdk = example_sdk
         and t = "''good''" and auth = "App ''[DEFAULT]''"
         and decoded = "\<lparr> DecodedIdToken.uid = ''user-42'', DecodedIdToken.email = None,
                          email_verified = None \<rparr>"]
      auth good
    by (auto simp: example_request_def)
  from a b c d show ?thesis by blast
qed

text \<open>
  Claim C10. With more than one space-separated segment after the scheme, only the
  first segment is verified and the rest is ignored: the first segment is what is handed
  to \<^verbatim>\<open>verifyIdToken\<close> (with \<^verbatim>\<open>checkRevoked\<close> set), its answer alone decides the
  outcome, and the outcome is that of the header with the first segment alone. Two spaces
  after \<^verbatim>\<open>Bearer\<close> give an empty first segment, and the request is rejected with 401.
\<close>

theorem verifyAuth_first_segment_only:
  "(CHR '' '' \<notin> set t1
      \<and> headers r1 ''authorization'' = Some (''Bearer '' @ t1 @ '' '' @ rest)
      \<and> headers r2 ''authorization'' = Some (''Bearer '' @ t1) \<longrightarrow>
    verifyAuth sdk r1 = verifyAuth sdk r2)
   \<and> (t1 \<noteq> [] \<and> CHR '' '' \<notin> set t1
      \<and> headers r1 ''authorization'' = Some (''Bearer '' @ t1 @ '' '' @ rest)
      \<and> getFirebaseAdminAuth sdk = Inr auth \<longrightarrow>
    verifyAuth sdk r1 =
      (case verifyIdToken sdk auth t1 True of
         Inl code \<Rightarrow> Inl (AuthenticationError ''Invalid or expired token'' 401)
       | Inr decoded \<Rightarrow>
           Inr \<lparr> uid = DecodedIdToken.uid decoded,
                 email = DecodedIdToken.email decoded,
                 emailVerified = (case email_verified decoded of None \<Rightarrow> False | Some b \<Rightarrow> b),
                 token = decoded \<rparr>))
   \<and> (headers r ''authorization'' = Some (''Bearer  '' @ rest') \<longrightarrow>
    verifyAuth sdk r = Inl (AuthenticationError ''Invalid authorization header format'' 401))"
proof (intro conjI impI)
  assume a: "CHR '' '' \<notin> set t1
      \<and> headers r1 ''authorization'' = Some (''Bearer '' @ t1 @ '' '' @ rest)
      \<and> headers r2 ''authorization'' = Some (''Bearer '' @ t1)"
  then have s1: "split CHR '' '' (''Bearer '' @ t1 @ '' '' @ rest) = ''Bearer'' # t1 # split CHR '' '' rest"
    using split_append_sep [of "CHR '' ''" "''Bearer''" "t1 @ '' '' @ rest"]
      split_append_sep [of "CHR '' ''" t1 rest] by simp
  from a have s2: "split CHR '' '' (''Bearer '' @ t1) = [''Bearer'', t1]"
    using split_append_sep [of "CHR '' ''" "''Bearer''" t1] split_no_sep [of "CHR '' ''" t1] by simp
  from a s1 s2 show "verifyAuth sdk r1 = verifyAuth sdk r2"
    by (simp add: verifyAuth_def verifyAuth_try_def)
next
  assume a: "t1 \<noteq> [] \<and> CHR '' '' \<notin> set t1
      \<and> headers r1 ''authorization'' = Some (''Bearer '' @ t1 @ '' '' @ rest)
      \<and> getFirebaseAdminAuth sdk = Inr auth"
  then have s1: "split CHR '' '' (''Bearer '' @ t1 @ '' '' @ rest) = ''Bearer'' # t1 # split CHR '' '' rest"
    using split_append_sep [of "CHR '' ''" "''Bearer''" "t1 @ '' '' @ rest"]
      split_append_sep [of "CHR '' ''" t1 rest] by simp
  obtain p ps where ps: "split CHR '' '' rest = p # ps"
    using split_ne [of "CHR '' ''" rest] by (cases "split CHR '' '' rest") auto
  from a s1 ps show "verifyAuth sdk r1 =
      (case verifyIdToken sdk auth t1 True of
         Inl code \<Rightarrow> Inl (AuthenticationError ''Invalid or expired token'' 401)
       | Inr decoded \<Rightarrow>
           Inr \<lparr> uid = DecodedIdToken.uid decoded,
                 email = DecodedIdToken.email decoded,
                 emailVerified = (case email_verified decoded of None \<Rightarrow> False | Some b \<Rightarrow> b),
                 token = decoded \<rparr>)"
    by (simp add: verifyAuth_def verifyAuth_try_def split: sum.splits)
next
  assume a: "headers r ''authorization'' = Some (''Bearer  '' @ rest')"
  have "split CHR '' '' (''Bearer  '' @ rest') = ''Bearer'' # [] # split CHR '' '' rest'"
    using split_append_sep [of "CHR '' ''" "''Bearer''" "'' '' @ rest'"] by simp
  with a show "verifyAuth sdk r = Inl (AuthenticationError ''Invalid authorization header format'' 401)"
    by (simp add: verifyAuth_def verifyAuth_try_def)
qed

theorem verifyAuth_first_segment_only_witness:
  "verifyAuth example_sdk (example_request (Some ''Bearer good old''))
     = Inr \<lparr> uid = ''user-42'', email = None, emailVerified = False,
             token = \<lparr> DecodedIdToken.uid = ''user-42'', DecodedIdToken.email = None,
                       email_verified = None \<rparr> \<rparr>
   \<and> verifyAuth example_sdk (example_request (Some ''Bearer old good''))
     = Inl (AuthenticationError ''Invalid or expired token'' 401)
   \<and> verifyAuth example_sdk (example_request (Some ''Bearer good old''))
     = verifyAuth example_sdk (example_request (Some ''Bearer good''))
   \<and> verifyAuth example_sdk (example_request (Some ''Bearer  good''))
     = Inl (AuthenticationError ''Invalid authorization header format'' 401)"
  (is "?A \<and> ?B \<and> ?C \<and> ?D")
proof -
  have auth: "getFirebaseAdminAuth example_sdk = Inr (App ''[DEFAULT]'')"
    by (simp add: getFirebaseAdminAuth_def getFirebaseAdmin_def example_sdk_def)
  note good = verifyAuth_first_segment_only
      [where ?t1.0 = "''good''" and rest = "''old''" and rest' = "''good''"
         and ?r1.0 = "example_request (Some ''Bearer good old'')"
         and ?r2.0 = "example_request (Some ''Bearer good'')"
         and r = "example_request (Some ''Bearer  good'')" and sdk = example_sdk
         and auth = "App ''[DEFAULT]''"]
  note old = verifyAuth_first_segment_only
      [where ?t1.0 = "''old''" and rest = "''good''" and rest' = "''good''"
         and ?r1.0 = "example_request (Some ''Bearer old good'')"
         and ?r2.0 = "example_request (Some ''Bearer old'')"
         and r = "example_request (Some ''Bearer  good'')" and sdk = example_sdk
         and auth = "App ''[DEFAULT]''"]
  have a: ?A
    using good [THEN conjunct2, THEN conjunct1] auth
    by (simp add: example_request_def example_sdk_def)
  have b: ?B
    using old [THEN conjunct2, THEN conjunct1] auth
    by (simp add: example_request_def example_sdk_def)
  have c: ?C
    using good [THEN conjunct1] by (simp add: example_request_def)
  have d: ?D
    using good [THEN conjunct2, THEN conjunct2] by (simp add: example_request_def)
  from a b c d show ?thesis by blast
qed

lemma getFirebaseAdminAuth_error:
  "getFirebaseAdminAuth sdk = Inl e \<Longrightarrow> e = Error ''Failed to initialize Firebase Admin SDK''"
  by (auto simp: getFirebaseAdminAuth_def getFirebaseAdmin_def split: list.splits sum.splits)

lemma verifyAuth_error_401:
  "verifyAuth sdk request = Inl e \<Longrightarrow> \<exists>message. e = AuthenticationError message 401"
  by (auto simp: verifyAuth_def verifyAuth_try_def Let_def
      split: sum.splits if_splits prod.splits dest!: getFirebaseAdminAuth_error)

text \<open>
  Claim C4. A handler wrapped by \<^verbatim>\<open>withAuth\<close> runs only with the caller that
  \<^verbatim>\<open>verifyAuth\<close> has verified for the request. When verification fails, the handler is
  not run: the response is the 401 of the \<^verbatim>\<open>catch\<close> block whatever the handler is, no
  run is recorded, and the state is not touched; for the route \<^verbatim>\<open>POST\<close> this means
  that no entropy is drawn (no cipher call) and nothing is stored.
\<close>

theorem withAuth_handler_only_when_verified:
  "(\<forall>user. user \<in> set (snd (snd (withAuth sdk (logged h) request (w, [])))) \<longrightarrow>
       verifyAuth sdk request = Inr user)
   \<and> (\<forall>e. verifyAuth sdk request = Inl e \<longrightarrow>
       withAuth sdk h request w = (withAuth_catch e, w)
       \<and> status (withAuth_catch e) = 401
       \<and> snd (snd (withAuth sdk (logged h) request (w, []))) = []
       \<and> POST sdk deps request w' = (withAuth_catch e, w'))"
  by (auto simp: withAuth_def logged_def POST_def split: sum.splits prod.splits
      dest!: verifyAuth_error_401)

theorem withAuth_handler_only_when_verified_witness:
  "verifyAuth example_sdk (example_request (Some ''Bearer good''))
     = Inr \<lparr> uid = ''user-42'', email = None, emailVerified = False,
             token = \<lparr> DecodedIdToken.uid = ''user-42'', DecodedIdToken.email = None,
                       email_verified = None \<rparr> \<rparr>
   \<and> snd (snd (withAuth example_sdk
        (logged (\<lambda>request user w. (Inr \<lparr> status = 200, body = [] \<rparr>, Suc w)))
        (example_request (Some ''Bearer good'')) (0::nat, [])))
     = [\<lparr> uid = ''user-42'', email = None, emailVerified = False,
          token = \<lparr> DecodedIdToken.uid = ''user-42'', DecodedIdToken.email = None,
                    email_verified = None \<rparr> \<rparr>]
   \<and> withAuth example_sdk (\<lambda>request user w. (Inr \<lparr> status = 200, body = [] \<rparr>, Suc w))
        (example_request (Some ''Bearer old'')) (0::nat)
      = (\<lparr> status = 401, body = [(''error'', JString ''Invalid or expired token'')] \<rparr>, 0)"
proof -
  let ?h = "\<lambda>(request :: unit NextRequest) (user :: AuthenticatedUser) (w :: nat).
              (Inr \<lparr> status = 200, body = [] \<rparr> :: js_error + Response, Suc w)"
  let ?u = "\<lparr> uid = ''user-42'', email = None, emailVerified = False,
             token = \<lparr> DecodedIdToken.uid = ''user-42'', DecodedIdToken.email = None,
                       email_verified = None \<rparr> \<rparr>"
  have bad: "verifyAuth example_sdk (example_request (Some ''Bearer old''))
      = Inl (AuthenticationError ''Invalid or expired token'' 401)"
    by (simp add: verifyAuth_def verifyAuth_try_def example_sdk_def example_request_def
        getFirebaseAdminAuth_def getFirebaseAdmin_def)
  have good: "verifyAuth example_sdk (example_request (Some ''Bearer good'')) = Inr ?u"
    by (simp add: verifyAuth_def verifyAuth_try_def example_sdk_def example_request_def
        getFirebaseAdminAuth_def getFirebaseAdmin_def)
  have b: "snd (snd (withAuth example_sdk (logged ?h)
        (example_request (Some ''Bearer good'')) (0::nat, []))) = [?u]"
    using good by (simp add: withAuth_def logged_def)
  have c: "withAuth example_sdk ?h (example_request (Some ''Bearer old'')) (0::nat)
      = (\<lparr> status = 401, body = [(''error'', JString ''Invalid or expired token'')] \<rparr>, 0)"
    using withAuth_handler_only_when_verified
      [where sdk = example_sdk and h = ?h and request = "example_request (Some ''Bearer old'')"
         and w = 0] bad
    by (metis withAuth_catch.simps(1))
  from good b c show ?thesis by blast
qed

text \<open>
  Claim C8, at the input where the code departs from it. The Firebase Admin SDK cannot be
  initialised (no app yet, and \<^verbatim>\<open>initializeApp\<close> throws), which is neither a missing or
  malformed credential nor a verification failure. \<^verbatim>\<open>getFirebaseAdminAuth\<close> throws a
  plain \<^verbatim>\<open>Error\<close>, the \<^verbatim>\<open>catch\<close> of \<^verbatim>\<open>verifyAuth\<close> turns it into an
  \<open>AuthenticationError\<close>, and the response is a 401, not the 500 of the branch
  \<^verbatim>\<open>withAuth\<close> has for unexpected errors.
\<close>

theorem withAuth_sdk_failure_is_401:
  "\<forall>h w. withAuth (example_sdk \<lparr> getApps := [] \<rparr>) h (example_request (Some ''Bearer good'')) w
     = (\<lparr> status = 401, body = [(''error'', JString ''Invalid or expired token'')] \<rparr>, w)
   \<and> getFirebaseAdminAuth (example_sdk \<lparr> getApps := [] \<rparr>)
     = Inl (Error ''Failed to initialize Firebase Admin SDK'')"
  by (simp add: withAuth_def verifyAuth_def verifyAuth_try_def example_sdk_def
      example_request_def getFirebaseAdminAuth_def getFirebaseAdmin_def)

text \<open>The 500 of \<^verbatim>\<open>withAuth\<close> is only ever the answer to an error the handler threw.\<close>

lemma withAuth_500_only_from_handler:
  "status (fst (withAuth sdk h request w)) = 500 \<Longrightarrow>
   \<exists>user. verifyAuth sdk request = Inr user"
  by (auto simp: withAuth_def split: sum.splits dest!: verifyAuth_error_401)

section \<open>Properties of the buffers and of the cipher\<close>

lemma sextet_lt: "unat ((v::byte) AND 0x3F) < 64"
proof -
  have "v AND 0x3F \<le> 0x3F" by (rule word_and_le1)
  then show ?thesis by (simp add: word_le_nat_alt)
qed



lemma unbase64_upper: "n < 26 \<Longrightarrow> unbase64 (char_of (n + 65)) = Some (word_of_nat n)"
  by (simp add: unbase64_def Let_def)

lemma unbase64_lower:
  "26 \<le> n \<Longrightarrow> n < 52 \<Longrightarrow> unbase64 (char_of (n + 71)) = Some (word_of_nat n)"
  by (simp add: unbase64_def Let_def)

lemma unbase64_digit:
  assumes "52 \<le> n" "n < 62"
  shows "unbase64 (char_of (n - 4)) = Some (word_of_nat n)"
proof -
  from assms have "n = (n - 52) + 52" "n - 52 < 10" by simp_all
  then obtain k where k: "n = k + 52" "k < 10" by blast
  then show ?thesis by (simp add: unbase64_def Let_def)
qed

lemma unbase64_char_of:
  assumes n: "n < 64"
  shows "unbase64 (if n < 26 then char_of (n + 65)
      else if n < 52 then char_of (n + 71)
      else if n < 62 then char_of (n - 4)
      else if n = 62 then CHR ''+'' else CHR ''/'') = Some (word_of_nat n)"
proof -
  consider "n < 26" | "26 \<le> n" "n < 52" | "52 \<le> n" "n < 62" | "n = 62" | "n = 63"
    using n by linarith
  then show ?thesis
  proof cases
    case 1
    then show ?thesis using unbase64_upper [of n] by simp
  next
    case 2
    then show ?thesis using unbase64_lower [of n] by simp
  next
    case 3
    then show ?thesis using unbase64_digit [of n] by simp
  next
    case 4
    then show ?thesis by (simp add: unbase64_def Let_def)
  next
    case 5
    then show ?thesis by (simp add: unbase64_def Let_def)
  qed
qed

lemma unbase64_base64_char: "unbase64 (base64_char v) = Some (v AND 0x3F)"
proof -
  have "unbase64 (base64_char v) = Some (word_of_nat (unat (v AND 0x3F)))"
    unfolding base64_char_def Let_def by (rule unbase64_char_of [OF sextet_lt])
  then show ?thesis by simp
qed


lemma m3F: "(0x3F::byte) = mask 6" by (simp add: mask_eq_exp_minus_1)
lemma m30: "(0x30::byte) = push_bit 4 (mask 2)" by (simp add: mask_eq_exp_minus_1)
lemma m3C: "(0x3C::byte) = push_bit 2 (mask 4)" by (simp add: mask_eq_exp_minus_1)
lemma m0F: "(0x0F::byte) = mask 4" by (simp add: mask_eq_exp_minus_1)
lemma m03: "(0x03::byte) = mask 2" by (simp add: mask_eq_exp_minus_1)
lemmas b64_masks = m3F m30 m3C m0F m03

lemma byte_eqI:
  fixes a b :: byte
  assumes "\<And>n. n < 2 \<Longrightarrow> bit a n = bit b n"
    and "\<And>m. m < 2 \<Longrightarrow> bit a (2 + m) = bit b (2 + m)"
    and "\<And>m. m < 2 \<Longrightarrow> bit a (Suc (Suc (Suc (Suc m)))) = bit b (Suc (Suc (Suc (Suc m))))"
    and "\<And>m. m < 2 \<Longrightarrow> bit a (Suc (Suc (Suc (Suc (Suc (Suc m))))))
           = bit b (Suc (Suc (Suc (Suc (Suc (Suc m))))))"
  shows "a = b"
proof (rule bit_word_eqI)
  fix n assume "n < LENGTH(8)"
  then consider "n < 2" | m where "m < 2" "n = 2 + m" | m where "m < 2" "n = 4 + m"
    | m where "m < 2" "n = 6 + m"
    by atomize_elim (simp, presburger)
  then show "bit a n = bit b n"
    by cases (use assms in \<open>auto simp: eval_nat_numeral\<close>)
qed

lemma add_4_eq_Suc: "4 + m = Suc (Suc (Suc (Suc m)))" by simp
lemma add_6_eq_Suc: "6 + m = Suc (Suc (Suc (Suc (Suc (Suc m)))))" by simp

lemma group_byte1:
  "push_bit 2 ((drop_bit 2 a AND 0x3F) AND 0x3F)
     OR drop_bit 4 (((push_bit 4 (a AND 0x03) OR drop_bit 4 b) AND 0x3F) AND 0x30) = (a::byte)"
  unfolding b64_masks
  by (rule byte_eqI) (auto simp: bit_simps add_4_eq_Suc add_6_eq_Suc)

lemma group_byte2:
  "push_bit 4 (((push_bit 4 (a AND 0x03) OR drop_bit 4 b) AND 0x3F) AND 0x0F)
     OR drop_bit 2 (((push_bit 2 (b AND 0x0F) OR drop_bit 6 c) AND 0x3F) AND 0x3C) = (b::byte)"
  unfolding b64_masks
  by (rule byte_eqI) (auto simp: bit_simps add_4_eq_Suc add_6_eq_Suc)

lemma group_byte3:
  "push_bit 6 (((push_bit 2 (b AND 0x0F) OR drop_bit 6 c) AND 0x3F) AND 0x03)
     OR ((c AND 0x3F) AND 0x3F) AND 0x3F = (c::byte)"
  unfolding b64_masks
  by (rule byte_eqI) (auto simp: bit_simps add_4_eq_Suc add_6_eq_Suc)
lemma group_byte1':
  "push_bit 2 ((drop_bit 2 a AND 0x3F) AND 0x3F)
     OR drop_bit 4 (((push_bit 4 (a AND 0x03)) AND 0x3F) AND 0x30) = (a::byte)"
  unfolding b64_masks
  by (rule byte_eqI) (auto simp: bit_simps add_4_eq_Suc add_6_eq_Suc)

lemma group_byte2':
  "push_bit 4 (((push_bit 4 (a AND 0x03) OR drop_bit 4 b) AND 0x3F) AND 0x0F)
     OR drop_bit 2 (((push_bit 2 (b AND 0x0F)) AND 0x3F) AND 0x3C) = (b::byte)"
  unfolding b64_masks
  by (rule byte_eqI) (auto simp: bit_simps add_4_eq_Suc add_6_eq_Suc)


lemma base64_sextets_char [simp]:
  "base64_sextets (base64_char v # cs) = (v AND 0x3F) # base64_sextets cs"
  by (simp add: unbase64_base64_char)

lemma base64_sextets_pad [simp]: "base64_sextets (CHR ''='' # cs) = []"
  by (simp add: unbase64_def)

lemma base64_roundtrip: "Buffer_from_base64 (toString_base64 buf) = buf"
  unfolding Buffer_from_base64_def
proof (induction buf rule: toString_base64.induct)
  case (1 a b c rest)
  then show ?case
    by (simp only: toString_base64.simps append_Cons append_Nil base64_sextets_char
        base64_groups.simps group_byte1 group_byte2 group_byte3)
next
  case (2 a b)
  show ?case
    by (simp only: toString_base64.simps base64_sextets_char base64_sextets_pad
        base64_groups.simps group_byte1 group_byte2')
next
  case (3 a)
  show ?case
    by (simp only: toString_base64.simps base64_sextets_char base64_sextets_pad
        base64_groups.simps group_byte1')
next
  case 4
  show ?case by simp
qed


lemma utf8_roundtrip: "toString_utf8 (Buffer_from_utf8 s) = s"
proof -
  have "char_of_byte (byte_of_char c) = c" for c
    by (simp add: char_of_byte_def byte_of_char_def unat_of_nat)
  then show ?thesis
    by (simp add: toString_utf8_def Buffer_from_utf8_def map_idI)
qed

lemma length_be_bytes [simp]: "length (be_bytes n w) = n"
  by (simp add: be_bytes_def)

lemma length_digest [simp]: "length (digest lib msg) = 32"
  by (simp add: digest_def)

lemma length_hmac [simp]: "length (hmac lib k msg) = 32"
  by (simp add: hmac_def Let_def)

lemma length_hkdf_blocks [simp]: "length (hkdf_blocks lib prk info prev i n) = 32 * n"
  by (induction n arbitrary: prev i) (simp_all add: Let_def)

lemma length_hkdf_expand: "length (hkdf_expand lib prk info keylen) = keylen"
  by (simp add: hkdf_expand_def)

lemma deriveUserKey_length:
  "deriveUserKey lib env firebaseUid = Inr key \<Longrightarrow> length key = 32"
  by (auto simp: deriveUserKey_def hkdfSync_def length_hkdf_expand KEY_LENGTH_def Let_def
      split: sum.splits if_splits)

lemma deriveUserKey_set:
  "ENCRYPTION_MASTER_SECRET env = Some secret \<Longrightarrow> secret \<noteq> [] \<Longrightarrow>
   \<exists>key. deriveUserKey lib env firebaseUid = Inr key \<and> length key = 32"
  by (simp add: deriveUserKey_def getMasterSecret_def hkdfSync_def length_hkdf_expand
      KEY_LENGTH_def Let_def)

lemma xor_stream_twice:
  "map (\<lambda>(i, b). b XOR ks i) (enumerate n (map (\<lambda>(i, b). b XOR ks i) (enumerate n d))) = (d :: byte list)"
  by (induction d arbitrary: n) (simp_all add: xor.assoc)

lemma gcm_crypt_twice: "gcm_crypt lib key iv_bytes (gcm_crypt lib key iv_bytes d) = d"
  unfolding gcm_crypt_def by (rule xor_stream_twice)

lemma decipher_cipher:
  assumes "cipher_run lib algorithm key iv_bytes plaintext = Inr (c, t)"
  shows "decipher_run lib algorithm key iv_bytes t c = Inr plaintext"
  using assms
  by (auto simp: cipher_run_def decipher_run_def Let_def gcm_crypt_twice split: option.splits)

lemma cipher_run_ok:
  assumes "length key = 32" "iv_bytes \<noteq> []"
  shows "\<exists>c t. cipher_run lib ALGORITHM key iv_bytes plaintext = Inr (c, t)"
  using assms by (simp add: cipher_run_def createCipheriv_check_def ALGORITHM_def Let_def)

lemma be_bytes_inj:
  fixes w w' :: "'a::len word"
  assumes eq: "be_bytes n w = be_bytes n w'" and len: "LENGTH('a) \<le> 8 * n"
  shows "w = w'"
proof (rule bit_word_eqI)
  fix m assume m: "m < LENGTH('a)"
  let ?i = "n - 1 - m div 8"
  from m len have d: "m div 8 < n" by simp
  then have i: "?i < n" by simp
  from d have k: "n - 1 - ?i = m div 8" by simp
  have "be_bytes n w ! ?i = be_bytes n w' ! ?i" using eq by simp
  then have "(ucast (drop_bit (8 * (m div 8)) w) :: byte) = ucast (drop_bit (8 * (m div 8)) w')"
    using i k by (simp add: be_bytes_def)
  then have "bit (ucast (drop_bit (8 * (m div 8)) w) :: byte) (m mod 8)
           = bit (ucast (drop_bit (8 * (m div 8)) w') :: byte) (m mod 8)"
    by simp
  then show "bit w m = bit w' m"
    by (simp add: bit_ucast_iff bit_drop_bit_eq)
qed

lemma length_flip_bit_at [simp]: "length (flip_bit_at n buf) = length buf"
  by (simp add: flip_bit_at_def)

lemma flip_bit_at_neq: "n < 8 * length buf \<Longrightarrow> flip_bit_at n buf \<noteq> buf"
proof
  assume n: "n < 8 * length buf" and eq: "flip_bit_at n buf = buf"
  let ?j = "n div 8"
  from n have j: "?j < length buf" by simp
  have "flip_bit_at n buf ! ?j = buf ! ?j XOR push_bit (n mod 8) 1"
    using j by (simp add: flip_bit_at_def)
  with eq have "buf ! ?j XOR push_bit (n mod 8) 1 = buf ! ?j" by simp
  then have "push_bit (n mod 8) (1 :: byte) = 0"
  proof -
    assume a: "buf ! ?j XOR push_bit (n mod 8) 1 = buf ! ?j"
    have "push_bit (n mod 8) (1 :: byte) = (buf ! ?j XOR buf ! ?j) XOR push_bit (n mod 8) 1"
      by simp
    also have "\<dots> = buf ! ?j XOR (buf ! ?j XOR push_bit (n mod 8) 1)"
      by (simp only: xor.assoc)
    also have "\<dots> = 0" using a by simp
    finally show ?thesis .
  qed
  moreover have "bit (push_bit (n mod 8) (1 :: byte)) (n mod 8)"
    by (simp add: bit_simps)
  ultimately show False by simp
qed


section \<open>Properties of encryption.ts\<close>

lemma encrypt_then_decrypt:
  assumes "ENCRYPTION_MASTER_SECRET env = Some secret" and "secret \<noteq> []"
    and "stringify JSON data = Some plaintext" and "parse JSON plaintext = Some data"
  shows "\<exists>encrypted. fst (encrypt lib JSON env data i g) = Inr encrypted
           \<and> decrypt lib JSON env encrypted i = Inr data"
proof -
  obtain key where key: "deriveUserKey lib env i = Inr key" "length key = 32"
    using deriveUserKey_set [OF assms(1,2)] by blast
  obtain iv_bytes g' where rb: "randomBytes IV_LENGTH g = (iv_bytes, g')"
    by (cases "randomBytes IV_LENGTH g")
  then have "length iv_bytes = 16"
    by (auto simp: randomBytes_def IV_LENGTH_def)
  then have ivne: "iv_bytes \<noteq> []" by auto
  obtain c t where ct: "cipher_run lib ALGORITHM key iv_bytes (Buffer_from_utf8 plaintext) = Inr (c, t)"
    using cipher_run_ok [OF key(2) ivne] by blast
  let ?r = "\<lparr> ciphertext = toString_base64 c, iv = toString_base64 iv_bytes,
              authTag = toString_base64 t \<rparr>"
  have enc: "fst (encrypt lib JSON env data i g) = Inr ?r"
    using key(1) rb ct assms(3) by (simp add: encrypt_def encrypt_try_def)
  have "decrypt_try lib JSON env ?r i = Inr data"
    using key(1) decipher_cipher [OF ct] assms(4)
    by (simp add: decrypt_try_def base64_roundtrip utf8_roundtrip)
  then have "decrypt lib JSON env ?r i = Inr data"
    by (simp add: decrypt_def)
  with enc show ?thesis by blast
qed


text \<open>
  Claim C1. With the master secret set, and for data that \<^verbatim>\<open>JSON\<close> writes and reads
  back (\<^verbatim>\<open>JSON.parse(JSON.stringify(data))\<close> is \<open>data\<close>), \<^verbatim>\<open>encrypt\<close> returns a record
  and \<^verbatim>\<open>decrypt\<close> of that record with the same identity returns \<open>data\<close>: for every
  identity, every draw of the IV and all primitives.
\<close>

theorem encrypt_decrypt_roundtrip:
  assumes "ENCRYPTION_MASTER_SECRET env = Some secret" and "secret \<noteq> []"
    and "stringify JSON data = Some plaintext" and "parse JSON plaintext = Some data"
  shows "\<exists>encrypted. fst (encrypt lib JSON env data i g) = Inr encrypted
           \<and> decrypt lib JSON env encrypted i = Inr data"
  using assms by (rule encrypt_then_decrypt)

theorem encrypt_decrypt_roundtrip_witness:
  "\<forall>lib g. \<exists>encrypted.
      fst (encrypt lib JSON_bool example_env True ''user-42'' g) = Inr encrypted
      \<and> decrypt lib JSON_bool example_env encrypted ''user-42'' = Inr True"
  using encrypt_decrypt_roundtrip
    [where env = example_env and JSON = JSON_bool and data = True and plaintext = "''true''"
       and i = "''user-42''"]
  by (simp add: example_env_def JSON_bool_def)

lemma decrypt_error:
  "decrypt lib JSON env r i = Inl e \<Longrightarrow>
   e = Error ''Decryption failed or data integrity compromised''"
  by (auto simp: decrypt_def split: sum.splits)

lemma encrypt_error:
  "fst (encrypt lib JSON env d i g) = Inl e \<Longrightarrow> e = Error ''Encryption failed''"
  by (auto simp: encrypt_def split: sum.splits prod.splits)

lemma seal_ok:
  assumes "ENCRYPTION_MASTER_SECRET env = Some secret" "secret \<noteq> []" "iv_bytes \<noteq> []"
  shows "\<exists>key c t. deriveUserKey lib env i = Inr key
           \<and> cipher_run lib ALGORITHM key iv_bytes p = Inr (c, t)
           \<and> seal lib env i iv_bytes p
              = Inr \<lparr> ciphertext = toString_base64 c, iv = toString_base64 iv_bytes,
                      authTag = toString_base64 t \<rparr>"
proof -
  obtain key where key: "deriveUserKey lib env i = Inr key" "length key = 32"
    using deriveUserKey_set [OF assms(1,2)] by blast
  obtain c t where "cipher_run lib ALGORITHM key iv_bytes p = Inr (c, t)"
    using cipher_run_ok [OF key(2) assms(3)] by blast
  with key show ?thesis by (simp add: seal_def)
qed


lemma encrypt_InrD:
  assumes "fst (encrypt lib JSON env data i g) = Inr r"
  shows "\<exists>key p. deriveUserKey lib env i = Inr key \<and> stringify JSON data = Some p
     \<and> r = \<lparr> ciphertext = toString_base64 (gcm_crypt lib key (map g [0..<16]) (Buffer_from_utf8 p)),
             iv = toString_base64 (map g [0..<16]),
             authTag = toString_base64 (be_bytes 16 (aes_256_gcm_tag lib key (map g [0..<16])
                 (gcm_crypt lib key (map g [0..<16]) (Buffer_from_utf8 p)))) \<rparr>"
  using assms
  by (auto simp: encrypt_def encrypt_try_def randomBytes_def IV_LENGTH_def cipher_run_def
      Let_def split: sum.splits prod.splits option.splits)

lemma decrypt_tag_mismatch:
  assumes "deriveUserKey lib env i = Inr key"
    and "Buffer_from_base64 (authTag r) \<noteq> take (length (Buffer_from_base64 (authTag r)))
           (be_bytes 16 (aes_256_gcm_tag lib key (Buffer_from_base64 (iv r))
              (Buffer_from_base64 (ciphertext r))))"
  shows "decrypt lib JSON env r i = Inl (Error ''Decryption failed or data integrity compromised'')"
  using assms
  by (simp add: decrypt_def decrypt_try_def decipher_run_def Let_def split: option.splits)

lemma length_gcm_crypt [simp]: "length (gcm_crypt lib key iv_bytes d) = length d"
  by (simp add: gcm_crypt_def)


lemma fold_xor_shift: "fold (XOR) bs (a XOR d) = fold (XOR) bs a XOR (d :: byte)"
  by (induction bs arbitrary: a) (simp_all add: xor.left_commute xor.assoc [symmetric])

lemma xor_left_cancel: "a XOR x = a XOR y \<Longrightarrow> x = (y :: byte)"
proof -
  assume e: "a XOR x = a XOR y"
  have "x = a XOR (a XOR x)" by (simp add: xor.assoc [symmetric])
  also have "\<dots> = a XOR (a XOR y)" using e by simp
  also have "\<dots> = y" by (simp add: xor.assoc [symmetric])
  finally show ?thesis .
qed

lemma ucast_byte_inj: "(ucast (a :: byte) :: 128 word) = ucast b \<Longrightarrow> a = b"
proof -
  assume "(ucast a :: 128 word) = ucast b"
  then have "(ucast (ucast a :: 128 word) :: byte) = ucast (ucast b :: 128 word)" by simp
  then show ?thesis by (simp add: ucast_up_ucast_id is_up)
qed

text \<open>
  Claim C7 does not hold as stated: a master secret that is set but malformed is not
  refused. \<^verbatim>\<open>Buffer.from(secret, 'base64')\<close> decodes \<^verbatim>\<open>not base64!\<close> to six bytes,
  no length is checked, and a key is derived from them.
\<close>

theorem deriveUserKey_malformed_secret_counterexample:
  "Buffer_from_base64 ''not base64!'' = [158, 139, 91, 106, 199, 186]
   \<and> (\<forall>lib. \<not> isl (deriveUserKey lib
          (example_env \<lparr> ENCRYPTION_MASTER_SECRET := Some ''not base64!'' \<rparr>) ''user-42''))"
  by (simp add: Buffer_from_base64_def unbase64_def deriveUserKey_def getMasterSecret_def
      hkdfSync_def KEY_LENGTH_def example_env_def)

text \<open>
  Claim C7, amended. \<^verbatim>\<open>deriveUserKey\<close> fails exactly when the master secret is absent
  or empty, for every identity, with a plain \<^verbatim>\<open>Error\<close> that says the variable is not
  set; \<^verbatim>\<open>encrypt\<close> and \<^verbatim>\<open>decrypt\<close> then fail with their own generic errors. A
  secret that is set is never refused, whatever its encoding and length: a 32-byte key
  is derived from what the lenient decoder makes of it.
\<close>

theorem deriveUserKey_fails_iff_secret_unset:
  "(falsy (ENCRYPTION_MASTER_SECRET env) \<longrightarrow>
      deriveUserKey lib env i
        = Inl (Error ''ENCRYPTION_MASTER_SECRET environment variable is not set'')
      \<and> fst (encrypt lib JSON env d i g) = Inl (Error ''Encryption failed'')
      \<and> decrypt lib JSON env r i = Inl (Error ''Decryption failed or data integrity compromised''))
   \<and> (\<not> falsy (ENCRYPTION_MASTER_SECRET env) \<longrightarrow>
      (\<exists>key. deriveUserKey lib env i = Inr key \<and> length key = 32))"
proof (intro conjI impI)
  assume f: "falsy (ENCRYPTION_MASTER_SECRET env)"
  then show k: "deriveUserKey lib env i
      = Inl (Error ''ENCRYPTION_MASTER_SECRET environment variable is not set'')"
    by (simp add: deriveUserKey_def getMasterSecret_def)
  from k show "fst (encrypt lib JSON env d i g) = Inl (Error ''Encryption failed'')"
    by (simp add: encrypt_def encrypt_try_def)
  from k show "decrypt lib JSON env r i
      = Inl (Error ''Decryption failed or data integrity compromised'')"
    by (simp add: decrypt_def decrypt_try_def)
next
  assume "\<not> falsy (ENCRYPTION_MASTER_SECRET env)"
  then obtain secret where "ENCRYPTION_MASTER_SECRET env = Some secret" "secret \<noteq> []"
    by (cases "ENCRYPTION_MASTER_SECRET env") auto
  then show "\<exists>key. deriveUserKey lib env i = Inr key \<and> length key = 32"
    by (rule deriveUserKey_set)
qed

theorem deriveUserKey_fails_iff_secret_unset_witness:
  "\<forall>lib.
     deriveUserKey lib (example_env \<lparr> ENCRYPTION_MASTER_SECRET := None \<rparr>) ''user-42''
       = Inl (Error ''ENCRYPTION_MASTER_SECRET environment variable is not set'')
     \<and> fst (encrypt lib JSON_bool (example_env \<lparr> ENCRYPTION_MASTER_SECRET := None \<rparr>)
              True ''user-42'' (\<lambda>i. 0)) = Inl (Error ''Encryption failed'')
     \<and> (\<exists>key. deriveUserKey lib (example_env \<lparr> ENCRYPTION_MASTER_SECRET := Some ''AAAA'' \<rparr>)
              ''user-42'' = Inr key \<and> length key = 32)"
proof
  fix lib
  show "deriveUserKey lib (example_env \<lparr> ENCRYPTION_MASTER_SECRET := None \<rparr>) ''user-42''
       = Inl (Error ''ENCRYPTION_MASTER_SECRET environment variable is not set'')
     \<and> fst (encrypt lib JSON_bool (example_env \<lparr> ENCRYPTION_MASTER_SECRET := None \<rparr>)
              True ''user-42'' (\<lambda>i. 0)) = Inl (Error ''Encryption failed'')
     \<and> (\<exists>key. deriveUserKey lib (example_env \<lparr> ENCRYPTION_MASTER_SECRET := Some ''AAAA'' \<rparr>)
              ''user-42'' = Inr key \<and> length key = 32)"
    using deriveUserKey_fails_iff_secret_unset
      [where env = "example_env \<lparr> ENCRYPTION_MASTER_SECRET := None \<rparr>" and lib = lib
         and i = "''user-42''" and JSON = JSON_bool and d = True and g = "\<lambda>i. 0"]
      deriveUserKey_fails_iff_secret_unset
      [where env = "example_env \<lparr> ENCRYPTION_MASTER_SECRET := Some ''AAAA'' \<rparr>" and lib = lib
         and i = "''user-42''" and JSON = JSON_bool]
    by (simp add: example_env_def)
qed

text \<open>
  Claim C9 does not hold as stated: \<^verbatim>\<open>decrypt\<close> has one \<^verbatim>\<open>catch\<close> for its whole
  body. For a record whose tag verifies and whose plaintext \<^verbatim>\<open>{\<close> is no JSON, the
  \<^verbatim>\<open>SyntaxError\<close> of \<^verbatim>\<open>JSON.parse\<close> is replaced by the same \<^verbatim>\<open>Error\<close> that
  replaces the authentication failure of the record with a flipped tag bit.
\<close>

theorem decrypt_error_kinds_counterexample:
  "\<forall>lib. \<exists>r key.
      seal lib example_env ''user-42'' (replicate 16 0) (Buffer_from_utf8 ''{'') = Inr r
      \<and> deriveUserKey lib example_env ''user-42'' = Inr key
      \<and> decipher_run lib ALGORITHM key (Buffer_from_base64 (iv r))
            (Buffer_from_base64 (authTag r)) (Buffer_from_base64 (ciphertext r))
          = Inr (Buffer_from_utf8 ''{'')
      \<and> parse JSON_bool ''{'' = None
      \<and> decrypt_try lib JSON_bool example_env r ''user-42''
          = Inl (SyntaxError ''Unexpected token'')
      \<and> decrypt lib JSON_bool example_env r ''user-42''
          = Inl (Error ''Decryption failed or data integrity compromised'')
      \<and> decrypt_try lib JSON_bool example_env (tamper AuthTag 0 r) ''user-42''
          = Inl (Error ''Unsupported state or unable to authenticate data'')
      \<and> decrypt lib JSON_bool example_env (tamper AuthTag 0 r) ''user-42''
          = Inl (Error ''Decryption failed or data integrity compromised'')"
proof
  fix lib
  obtain key c t where k: "deriveUserKey lib example_env ''user-42'' = Inr key"
    and ct: "cipher_run lib ALGORITHM key (replicate 16 0) (Buffer_from_utf8 ''{'') = Inr (c, t)"
    and s: "seal lib example_env ''user-42'' (replicate 16 0) (Buffer_from_utf8 ''{'')
              = Inr \<lparr> ciphertext = toString_base64 c, iv = toString_base64 (replicate 16 0),
                      authTag = toString_base64 t \<rparr>"
    using seal_ok [where env = example_env and lib = lib and i = "''user-42''"
        and iv_bytes = "replicate 16 0" and p = "Buffer_from_utf8 ''{''"]
    by (auto simp: example_env_def)
  let ?r = "\<lparr> ciphertext = toString_base64 c, iv = toString_base64 (replicate 16 0),
              authTag = toString_base64 t \<rparr>"
  have kl: "length key = 32" using k by (rule deriveUserKey_length)
  have t: "t = be_bytes 16 (aes_256_gcm_tag lib key (replicate 16 0) c)"
    using ct by (auto simp: cipher_run_def Let_def split: option.splits)
  have d: "decipher_run lib ALGORITHM key (Buffer_from_base64 (iv ?r))
            (Buffer_from_base64 (authTag ?r)) (Buffer_from_base64 (ciphertext ?r))
          = Inr (Buffer_from_utf8 ''{'')"
    using decipher_cipher [OF ct] by (simp add: base64_roundtrip)
  have p: "parse JSON_bool ''{'' = None" by (simp add: JSON_bool_def)
  have e0: "decrypt_try lib JSON_bool example_env ?r ''user-42''
          = Inl (SyntaxError ''Unexpected token'')"
    using k d p by (simp add: decrypt_try_def utf8_roundtrip)
  then have e1: "decrypt lib JSON_bool example_env ?r ''user-42''
          = Inl (Error ''Decryption failed or data integrity compromised'')"
    by (simp add: decrypt_def)
  have "flip_bit_at 0 t \<noteq> t" using t by (intro flip_bit_at_neq) simp
  then have f0: "decrypt_try lib JSON_bool example_env (tamper AuthTag 0 ?r) ''user-42''
          = Inl (Error ''Unsupported state or unable to authenticate data'')"
    using k kl t
    by (simp add: decrypt_try_def decipher_run_def createCipheriv_check_def ALGORITHM_def
        base64_roundtrip)
  then have f1: "decrypt lib JSON_bool example_env (tamper AuthTag 0 ?r) ''user-42''
          = Inl (Error ''Decryption failed or data integrity compromised'')"
    by (simp add: decrypt_def)
  from s k d p e0 e1 f0 f1 show "\<exists>r key.
      seal lib example_env ''user-42'' (replicate 16 0) (Buffer_from_utf8 ''{'') = Inr r
      \<and> deriveUserKey lib example_env ''user-42'' = Inr key
      \<and> decipher_run lib ALGORITHM key (Buffer_from_base64 (iv r))
            (Buffer_from_base64 (authTag r)) (Buffer_from_base64 (ciphertext r))
          = Inr (Buffer_from_utf8 ''{'')
      \<and> parse JSON_bool ''{'' = None
      \<and> decrypt_try lib JSON_bool example_env r ''user-42''
          = Inl (SyntaxError ''Unexpected token'')
      \<and> decrypt lib JSON_bool example_env r ''user-42''
          = Inl (Error ''Decryption failed or data integrity compromised'')
      \<and> decrypt_try lib JSON_bool example_env (tamper AuthTag 0 r) ''user-42''
          = Inl (Error ''Unsupported state or unable to authenticate data'')
      \<and> decrypt lib JSON_bool example_env (tamper AuthTag 0 r) ''user-42''
          = Inl (Error ''Decryption failed or data integrity compromised'')"
    by blast
qed

text \<open>
  Claim C9, amended. Every failure of \<^verbatim>\<open>decrypt\<close> is the one generic
  \<^verbatim>\<open>Error('Decryption failed or data integrity compromised')\<close>: a deserialization that
  fails after the tag has verified is reported with the same error as a tag that does
  not verify, and a caller cannot tell the two apart.
\<close>

theorem decrypt_one_error_for_all_failures:
  "(\<forall>e. decrypt lib JSON env r i = Inl e \<longrightarrow>
       e = Error ''Decryption failed or data integrity compromised'')
   \<and> (deriveUserKey lib env i = Inr key
       \<and> decipher_run lib ALGORITHM key (Buffer_from_base64 (iv r))
            (Buffer_from_base64 (authTag r)) (Buffer_from_base64 (ciphertext r)) = Inr p
       \<and> parse JSON (toString_utf8 p) = None \<longrightarrow>
       decrypt lib JSON env r i = Inl (Error ''Decryption failed or data integrity compromised''))
   \<and> (deriveUserKey lib env i = Inr key
       \<and> decipher_run lib ALGORITHM key (Buffer_from_base64 (iv r))
            (Buffer_from_base64 (authTag r)) (Buffer_from_base64 (ciphertext r)) = Inl e' \<longrightarrow>
       decrypt lib JSON env r i = Inl (Error ''Decryption failed or data integrity compromised''))"
  by (auto simp: decrypt_def decrypt_try_def Let_def split: sum.splits option.splits)

theorem decrypt_one_error_for_all_failures_witness:
  "\<forall>lib. \<exists>r. seal lib example_env ''user-42'' (replicate 16 0) (Buffer_from_utf8 ''{'') = Inr r
     \<and> decrypt lib JSON_bool example_env r ''user-42''
          = Inl (Error ''Decryption failed or data integrity compromised'')"
proof
  fix lib
  obtain key c t where k: "deriveUserKey lib example_env ''user-42'' = Inr key"
    and ct: "cipher_run lib ALGORITHM key (replicate 16 0) (Buffer_from_utf8 ''{'') = Inr (c, t)"
    and s: "seal lib example_env ''user-42'' (replicate 16 0) (Buffer_from_utf8 ''{'')
              = Inr \<lparr> ciphertext = toString_base64 c, iv = toString_base64 (replicate 16 0),
                      authTag = toString_base64 t \<rparr>"
    using seal_ok [where env = example_env and lib = lib and i = "''user-42''"
        and iv_bytes = "replicate 16 0" and p = "Buffer_from_utf8 ''{''"]
    by (auto simp: example_env_def)
  let ?r = "\<lparr> ciphertext = toString_base64 c, iv = toString_base64 (replicate 16 0),
              authTag = toString_base64 t \<rparr>"
  have d: "decipher_run lib ALGORITHM key (Buffer_from_base64 (iv ?r))
            (Buffer_from_base64 (authTag ?r)) (Buffer_from_base64 (ciphertext ?r))
          = Inr (Buffer_from_utf8 ''{'')"
    using decipher_cipher [OF ct] by (simp add: base64_roundtrip)
  have p: "parse JSON_bool (toString_utf8 (Buffer_from_utf8 ''{'')) = None"
    by (simp add: JSON_bool_def utf8_roundtrip)
  have "decrypt lib JSON_bool example_env ?r ''user-42''
          = Inl (Error ''Decryption failed or data integrity compromised'')"
    using decrypt_one_error_for_all_failures
      [where lib = lib and JSON = JSON_bool and env = example_env and r = ?r
         and i = "''user-42''" and key = key and p = "Buffer_from_utf8 ''{''"]
      k d p
    by blast
  with s show "\<exists>r. seal lib example_env ''user-42'' (replicate 16 0) (Buffer_from_utf8 ''{'') = Inr r
     \<and> decrypt lib JSON_bool example_env r ''user-42''
          = Inl (Error ''Decryption failed or data integrity compromised'')"
    by blast
qed

section \<open>Properties of the key derivation\<close>

lemma length_hmac_key_block [simp]: "length (hmac_key_block lib k) = 64"
  by (simp add: hmac_key_block_def Let_def)

lemma hmac_key_block_cong:
  "hmac_key_block lib k1 = hmac_key_block lib k2 \<Longrightarrow> hmac lib k1 msg = hmac lib k2 msg"
  by (simp add: hmac_def hmac_outer_def)

lemma deriveUserKey_key_block:
  assumes "hmac_key_block lib (Buffer_from_utf8 i1) = hmac_key_block lib (Buffer_from_utf8 i2)"
  shows "deriveUserKey lib env i1 = deriveUserKey lib env i2"
proof -
  have h: "hkdf_extract lib (Buffer_from_utf8 i1) ikm = hkdf_extract lib (Buffer_from_utf8 i2) ikm"
    for ikm
    unfolding hkdf_extract_def by (rule hmac_key_block_cong [OF assms])
  show ?thesis
  proof (cases "getMasterSecret env")
    case (Inl error)
    then show ?thesis by (simp add: deriveUserKey_def)
  next
    case (Inr ikm)
    with h [of ikm] show ?thesis by (simp add: deriveUserKey_def hkdfSync_def Let_def)
  qed
qed

lemma key_block_trailing_zero:
  assumes "length salt < 64"
  shows "hmac_key_block lib (salt @ [0]) = hmac_key_block lib salt"
proof -
  obtain m where m: "64 - length salt = Suc m"
    using assms by (cases "64 - length salt") simp_all
  then have "64 - Suc (length salt) = m" by simp
  with m assms show ?thesis
    by (simp add: hmac_key_block_def replicate_app_Cons_same)
qed

lemma deriveUserKey_eq:
  "deriveUserKey lib env i =
     (case getMasterSecret env of
        Inl error \<Rightarrow> Inl error
      | Inr ikm \<Rightarrow>
          Inr (digest lib (hmac_outer lib (digest lib (hmac_outer lib (Buffer_from_utf8 i) ikm))
                 (Buffer_from_utf8 ''tenants-app-user-encryption-key'' @ [1]))))"
proof -
  have one: "(32 + 31) div 32 = Suc 0" by simp
  have "hkdf_expand lib prk info 32 = hmac lib prk (info @ [1])" for prk info
    by (simp add: hkdf_expand_def one Let_def)
  then show ?thesis
    by (simp add: deriveUserKey_def hkdfSync_def hkdf_extract_def hmac_def
        KEY_LENGTH_def Let_def split: sum.splits)
qed

lemma be_bytes_top_byte:
  "be_bytes 32 (push_bit 248 (ucast (v :: byte)) :: 256 word) = v # replicate 31 0"
proof (rule nth_equalityI)
  show "length (be_bytes 32 (push_bit 248 (ucast v) :: 256 word)) = length (v # replicate 31 0)"
    by simp
next
  fix i assume "i < length (be_bytes 32 (push_bit 248 (ucast v) :: 256 word))"
  then have i: "i < 32" by simp
  show "be_bytes 32 (push_bit 248 (ucast v) :: 256 word) ! i = (v # replicate 31 0) ! i"
  proof (cases i)
    case 0
    have "(ucast (drop_bit 248 (push_bit 248 (ucast v :: 256 word))) :: byte) = v"
      by (rule bit_word_eqI) (simp add: bit_simps)
    with 0 show ?thesis by (simp add: be_bytes_def)
  next
    case (Suc k)
    with i have k: "k < 31" by simp
    have lt: "\<not> 248 \<le> 8 * (30 - k) + n" if "n < 8" for n
      using that by arith
    have "(ucast (drop_bit (8 * (30 - k)) (push_bit 248 (ucast v :: 256 word))) :: byte) = 0"
      by (intro bit_word_eqI) (simp add: bit_simps lt)
    with Suc i k show ?thesis by (simp add: be_bytes_def)
  qed
qed

lemma sha256_example: "sha256 example_lib (b # bs) = push_bit 248 (ucast b)"
  by (simp add: example_lib_def)

lemma digest_example: "digest example_lib (b # bs) = b # replicate 31 0"
  by (simp add: digest_def sha256_example be_bytes_top_byte)

lemma hmac_outer_Cons:
  assumes "key \<noteq> []" "length key \<le> 64"
  shows "\<exists>rest. hmac_outer lib key msg = (hd key XOR 0x5C) # rest"
proof -
  obtain x xs where "key = x # xs" using assms(1) by (cases key) auto
  with assms(2) show ?thesis
    by (simp add: hmac_outer_def hmac_key_block_def Let_def)
qed

lemma digest_hmac_outer_example:
  assumes "key \<noteq> []" "length key \<le> 64"
  shows "digest example_lib (hmac_outer example_lib key msg) = (hd key XOR 0x5C) # replicate 31 0"
    and "sha256 example_lib (hmac_outer example_lib key msg) = push_bit 248 (ucast (hd key XOR 0x5C))"
  using hmac_outer_Cons [OF assms, of example_lib msg]
  by (auto simp: digest_example sha256_example)

lemma xor_5C_twice: "(b XOR 0x5C) XOR 0x5C = (b :: byte)"
  by (simp add: xor.assoc)

text \<open>
  The master secret of the end-to-end scenario decodes to the thirty-two bytes it was
  encoded from.
\<close>

lemma example_secret_bytes:
  "getMasterSecret example_env = Inr (Buffer_from_utf8 ''00000000000000000000000000000000'')"
  by (simp add: getMasterSecret_def example_env_def Buffer_from_base64_def unbase64_def
      Buffer_from_utf8_def byte_of_char_def)

lemma deriveUserKey_example:
  assumes "i \<noteq> []" "length i \<le> 64"
  shows "deriveUserKey example_lib example_env i = Inr (byte_of_char (hd i) # replicate 31 0)"
proof -
  have s: "Buffer_from_utf8 i \<noteq> []" "length (Buffer_from_utf8 i) \<le> 64"
    "hd (Buffer_from_utf8 i) = byte_of_char (hd i)"
    using assms by (simp_all add: Buffer_from_utf8_def hd_map)
  obtain ikm where ikm: "getMasterSecret example_env = Inr ikm"
    by (simp add: getMasterSecret_def example_env_def)
  have prk: "digest example_lib (hmac_outer example_lib (Buffer_from_utf8 i) ikm)
      = (byte_of_char (hd i) XOR 0x5C) # replicate 31 0"
    using digest_hmac_outer_example(1) [OF s(1,2)] s(3) by simp
  have "digest example_lib (hmac_outer example_lib ((byte_of_char (hd i) XOR 0x5C) # replicate 31 0)
          (Buffer_from_utf8 ''tenants-app-user-encryption-key'' @ [1]))
      = byte_of_char (hd i) # replicate 31 0"
    using digest_hmac_outer_example(1)
      [where key = "(byte_of_char (hd i) XOR 0x5C) # replicate 31 0"]
    by (simp add: xor_5C_twice)
  with prk ikm show ?thesis by (simp add: deriveUserKey_eq)
qed

lemma deriveUserKey_append_NUL:
  assumes "length (Buffer_from_utf8 i) < 64"
  shows "deriveUserKey lib env (i @ [CHR 0x00]) = deriveUserKey lib env i"
proof -
  have "Buffer_from_utf8 (i @ [CHR 0x00]) = Buffer_from_utf8 i @ [0]"
    by (simp add: Buffer_from_utf8_def byte_of_char_def)
  then have "hmac_key_block lib (Buffer_from_utf8 (i @ [CHR 0x00]))
      = hmac_key_block lib (Buffer_from_utf8 i)"
    using key_block_trailing_zero [OF assms] by simp
  then show ?thesis by (rule deriveUserKey_key_block)
qed

text \<open>
  Claim C5, at the inputs where the code departs from it. The salt of HKDF is the key of
  an HMAC, and HMAC pads its key with zero bytes to the block length of 64: an identity
  of fewer than 64 bytes and the same identity followed by a NUL character have the same
  key block, and the two distinct identities derive the same key, whatever SHA-256 is.
  The header of encryption.ts says that each user has a unique encryption key derived
  from their Firebase UID.
\<close>

theorem deriveUserKey_trailing_NUL_same_key:
  assumes "length (Buffer_from_utf8 i) < 64"
  shows "i @ [CHR 0x00] \<noteq> i
       \<and> deriveUserKey lib env (i @ [CHR 0x00]) = deriveUserKey lib env i"
  using deriveUserKey_append_NUL [OF assms] by simp

theorem deriveUserKey_trailing_NUL_same_key_witness:
  "''a'' \<noteq> [CHR ''a'', CHR 0x00]
   \<and> (\<forall>lib. deriveUserKey lib example_env [CHR ''a'', CHR 0x00]
               = deriveUserKey lib example_env ''a''
             \<and> \<not> isl (deriveUserKey lib example_env ''a''))
   \<and> deriveUserKey example_lib example_env ''a'' = Inr (0x61 # replicate 31 0)
   \<and> deriveUserKey example_lib example_env [CHR ''a'', CHR 0x00] = Inr (0x61 # replicate 31 0)
   \<and> deriveUserKey example_lib example_env ''b'' = Inr (0x62 # replicate 31 0)"
proof (intro conjI allI)
  show "''a'' \<noteq> [CHR ''a'', CHR 0x00]" by simp
next
  fix lib
  show "deriveUserKey lib example_env [CHR ''a'', CHR 0x00] = deriveUserKey lib example_env ''a''"
    using deriveUserKey_trailing_NUL_same_key [where i = "''a''" and lib = lib and env = example_env]
    by (simp add: Buffer_from_utf8_def)
next
  fix lib
  show "\<not> isl (deriveUserKey lib example_env ''a'')"
    using deriveUserKey_set [where env = example_env and lib = lib and firebaseUid = "''a''"]
    by (auto simp: example_env_def)
next
  show "deriveUserKey example_lib example_env ''a'' = Inr (0x61 # replicate 31 0)"
    using deriveUserKey_example [of "''a''"] by (simp add: byte_of_char_def)
next
  show "deriveUserKey example_lib example_env [CHR ''a'', CHR 0x00] = Inr (0x61 # replicate 31 0)"
    using deriveUserKey_example [of "[CHR ''a'', CHR 0x00]"] by (simp add: byte_of_char_def)
next
  show "deriveUserKey example_lib example_env ''b'' = Inr (0x62 # replicate 31 0)"
    using deriveUserKey_example [of "''b''"] by (simp add: byte_of_char_def)
qed

section \<open>Decryption under another identity\<close>

lemma decrypt_same_key:
  "deriveUserKey lib env i2 = deriveUserKey lib env i1 \<Longrightarrow>
   decrypt lib JSON env r i2 = decrypt lib JSON env r i1"
  by (simp add: decrypt_def decrypt_try_def)

lemma deriveUserKey_InrD:
  "deriveUserKey lib env i = Inr key \<Longrightarrow>
   \<exists>secret. ENCRYPTION_MASTER_SECRET env = Some secret \<and> secret \<noteq> []"
  by (cases "ENCRYPTION_MASTER_SECRET env")
     (auto simp: deriveUserKey_def getMasterSecret_def split: if_splits)

lemma xor_zero_funpow: "((XOR) (0 :: byte) ^^ n) a = a"
  by (induction n) simp_all

lemma tag_example:
  "aes_256_gcm_tag example_lib (k # replicate 31 0) iv_bytes c
     = ucast (fold (XOR) (iv_bytes @ c) 0 XOR k)"
proof -
  have "fold (XOR) (iv_bytes @ c) (0 XOR k) = fold (XOR) (iv_bytes @ c) 0 XOR k"
    by (rule fold_xor_shift)
  then show ?thesis by (simp add: example_lib_def xor_zero_funpow)
qed

text \<open>
  Claim C2, at the inputs where the code departs from it. An identity of fewer than 64
  bytes and the same identity followed by a NUL character are distinct and derive the
  same key (the salt of HKDF is an HMAC key, padded with zero bytes), so what
  \<^verbatim>\<open>encrypt\<close> writes for the one, \<^verbatim>\<open>decrypt\<close> returns to the other, whatever the
  primitives are and whichever IV is drawn. The header of encryption.ts says that each
  user has a unique encryption key derived from their Firebase UID.
\<close>

theorem decrypt_trailing_NUL_identity_returns_data:
  assumes len: "length (Buffer_from_utf8 i) < 64"
    and enc: "fst (encrypt lib JSON env data i g) = Inr r"
    and s: "stringify JSON data = Some plaintext" and p: "parse JSON plaintext = Some data"
  shows "i @ [CHR 0x00] \<noteq> i \<and> decrypt lib JSON env r (i @ [CHR 0x00]) = Inr data"
proof
  show "i @ [CHR 0x00] \<noteq> i" by simp
  obtain key where "deriveUserKey lib env i = Inr key"
    using encrypt_InrD [OF enc] by blast
  then obtain secret where secret: "ENCRYPTION_MASTER_SECRET env = Some secret" "secret \<noteq> []"
    using deriveUserKey_InrD by blast
  have "decrypt lib JSON env r i = Inr data"
    using encrypt_then_decrypt [OF secret s p, of lib i g] enc by auto
  moreover have "decrypt lib JSON env r (i @ [CHR 0x00]) = decrypt lib JSON env r i"
    by (rule decrypt_same_key) (rule deriveUserKey_append_NUL [OF len])
  ultimately show "decrypt lib JSON env r (i @ [CHR 0x00]) = Inr data" by simp
qed

theorem decrypt_trailing_NUL_identity_returns_data_witness:
  "(\<forall>lib g. \<exists>r. fst (encrypt lib JSON_bool example_env True ''a'' g) = Inr r
        \<and> decrypt lib JSON_bool example_env r [CHR ''a'', CHR 0x00] = Inr True)
   \<and> (\<exists>r. fst (encrypt example_lib JSON_bool example_env True ''a'' (\<lambda>i. 0)) = Inr r
        \<and> decrypt example_lib JSON_bool example_env r [CHR ''a'', CHR 0x00] = Inr True
        \<and> decrypt example_lib JSON_bool example_env r ''b''
            = Inl (Error ''Decryption failed or data integrity compromised''))"
proof (intro conjI allI)
  fix lib g
  obtain r where r: "fst (encrypt lib JSON_bool example_env True ''a'' g) = Inr r"
    using encrypt_then_decrypt
      [where env = example_env and JSON = JSON_bool and data = True and plaintext = "''true''"
         and i = "''a''" and lib = lib and g = g]
    by (auto simp: example_env_def JSON_bool_def)
  have "decrypt lib JSON_bool example_env r [CHR ''a'', CHR 0x00] = Inr True"
    using decrypt_trailing_NUL_identity_returns_data
      [where i = "''a''" and lib = lib and JSON = JSON_bool and env = example_env
         and data = True and g = g and r = r and plaintext = "''true''"] r
    by (simp add: Buffer_from_utf8_def JSON_bool_def)
  with r show "\<exists>r. fst (encrypt lib JSON_bool example_env True ''a'' g) = Inr r
        \<and> decrypt lib JSON_bool example_env r [CHR ''a'', CHR 0x00] = Inr True"
    by blast
next
  obtain r where enc: "fst (encrypt example_lib JSON_bool example_env True ''a'' (\<lambda>i. 0)) = Inr r"
    using encrypt_then_decrypt
      [where env = example_env and JSON = JSON_bool and data = True and plaintext = "''true''"
         and i = "''a''" and lib = example_lib and g = "\<lambda>i. 0"]
    by (auto simp: example_env_def JSON_bool_def)
  have ka: "deriveUserKey example_lib example_env ''a'' = Inr (0x61 # replicate 31 0)"
    using deriveUserKey_example [of "''a''"] by (simp add: byte_of_char_def)
  have kb: "deriveUserKey example_lib example_env ''b'' = Inr (0x62 # replicate 31 0)"
    using deriveUserKey_example [of "''b''"] by (simp add: byte_of_char_def)
  obtain p where r: "r = \<lparr> ciphertext = toString_base64 (gcm_crypt example_lib (0x61 # replicate 31 0) (map (\<lambda>i. 0) [0..<16]) (Buffer_from_utf8 p)),
             iv = toString_base64 (map (\<lambda>i. 0) [0..<16]),
             authTag = toString_base64 (be_bytes 16 (aes_256_gcm_tag example_lib (0x61 # replicate 31 0) (map (\<lambda>i. 0) [0..<16])
                 (gcm_crypt example_lib (0x61 # replicate 31 0) (map (\<lambda>i. 0) [0..<16]) (Buffer_from_utf8 p)))) \<rparr>"
    using encrypt_InrD [OF enc] ka by auto
  have ne: "aes_256_gcm_tag example_lib (0x62 # replicate 31 0) iv_bytes c
      \<noteq> aes_256_gcm_tag example_lib (0x61 # replicate 31 0) iv_bytes c" for iv_bytes c
  proof
    assume "aes_256_gcm_tag example_lib (0x62 # replicate 31 0) iv_bytes c
      = aes_256_gcm_tag example_lib (0x61 # replicate 31 0) iv_bytes c"
    then have "fold (XOR) (iv_bytes @ c) 0 XOR 0x62 = fold (XOR) (iv_bytes @ c) 0 XOR (0x61 :: byte)"
      unfolding tag_example by (rule ucast_byte_inj)
    then have "(0x62 :: byte) = 0x61" by (rule xor_left_cancel)
    then show False by simp
  qed
  have "be_bytes 16 (aes_256_gcm_tag example_lib (0x61 # replicate 31 0) iv_bytes c)
      \<noteq> be_bytes 16 (aes_256_gcm_tag example_lib (0x62 # replicate 31 0) iv_bytes c)" for iv_bytes c
    using ne [of iv_bytes c] be_bytes_inj [where n = 16 and 'a = 128] by fastforce
  then have 1: "decrypt example_lib JSON_bool example_env r ''b''
          = Inl (Error ''Decryption failed or data integrity compromised'')"
    using r by (intro decrypt_tag_mismatch [OF kb]) (simp add: base64_roundtrip)
  have 2: "decrypt example_lib JSON_bool example_env r [CHR ''a'', CHR 0x00] = Inr True"
    using decrypt_trailing_NUL_identity_returns_data
      [where i = "''a''" and lib = example_lib and JSON = JSON_bool and env = example_env
         and data = True and g = "\<lambda>i. 0" and r = r and plaintext = "''true''"] enc
    by (simp add: Buffer_from_utf8_def JSON_bool_def)
  from enc 1 2 show "\<exists>r. fst (encrypt example_lib JSON_bool example_env True ''a'' (\<lambda>i. 0)) = Inr r
        \<and> decrypt example_lib JSON_bool example_env r [CHR ''a'', CHR 0x00] = Inr True
        \<and> decrypt example_lib JSON_bool example_env r ''b''
            = Inl (Error ''Decryption failed or data integrity compromised'')"
    by blast
qed

section \<open>A bit flipped in the stored record\<close>






























text \<open>
  The code does verify the tag: a record that \<^verbatim>\<open>encrypt\<close> produced, with any one
  bit of the 16 bytes of its tag flipped and the tag written back in base64, is refused,
  whatever the primitives are. So is the record of the example with bit 4 of character
  21 of \<^verbatim>\<open>authTag\<close> flipped, which changes the last byte of the tag.
\<close>

lemma decrypt_refuses_flipped_tag_bytes:
  assumes enc: "fst (encrypt lib JSON env data i g) = Inr r" and n: "n < 128"
  shows "decrypt lib JSON env (tamper AuthTag n r) i
           = Inl (Error ''Decryption failed or data integrity compromised'')"
proof -
  obtain key p where key: "deriveUserKey lib env i = Inr key"
    and r: "r = \<lparr> ciphertext = toString_base64 (gcm_crypt lib key (map g [0..<16]) (Buffer_from_utf8 p)),
             iv = toString_base64 (map g [0..<16]),
             authTag = toString_base64 (be_bytes 16 (aes_256_gcm_tag lib key (map g [0..<16])
                 (gcm_crypt lib key (map g [0..<16]) (Buffer_from_utf8 p)))) \<rparr>"
    using encrypt_InrD [OF enc] by blast
  let ?t = "be_bytes 16 (aes_256_gcm_tag lib key (map g [0..<16])
                 (gcm_crypt lib key (map g [0..<16]) (Buffer_from_utf8 p)))"
  from n have "n < 8 * length ?t" by simp
  then have "flip_bit_at n ?t \<noteq> ?t" by (rule flip_bit_at_neq)
  then show ?thesis
    using r by (intro decrypt_tag_mismatch [OF key]) (simp add: base64_roundtrip)
qed




end
